theory Spec2Isabelle
  imports Main
begin

section \<open>The SSH host cache of sysdb (src/db/sysdb\_ssh.c)\<close>

text \<open>
  The file \<^verbatim>\<open>sysdb_ssh.c\<close> stores, updates and looks up SSH host entries. It is
  written against collaborators that are declared in headers and implemented elsewhere:
  the talloc allocator, the attribute bag \<^verbatim>\<open>struct sysdb_attrs\<close>, the custom-object
  store (\<^verbatim>\<open>sysdb_store_custom\<close>, \<^verbatim>\<open>sysdb_search_custom\<close>) and the transaction
  calls. The functions of the file are embedded as they are written; each collaborator
  is a small executable definition that follows the specification of the object store,
  and every collaborator call can be made to fail by an outcome oracle carried in the
  state, so that each error branch of the file is a branch of the model.
\<close>

subsection \<open>Values, messages, filters\<close>

text \<open>
  \<^verbatim>\<open>errno_t\<close> is a C int. \<^verbatim>\<open>time_t\<close> is the signed 64-bit integer of the LP64
  platforms the code is built for; its values are the integers from \<open>- 2 ^ 63\<close> up to
  \<open>2 ^ 63 - 1\<close>. The file computes with a \<^verbatim>\<open>time_t\<close> in one place, the sum
  \<^verbatim>\<open>now + known_hosts_timeout\<close> of line 204, which is made in \<^verbatim>\<open>time_t\<close>: a sum out of
  range overflows (undefined in C; the compiled code wraps around, and \<open>time_t_of\<close>
  writes this wrap-around out).
\<close>

type_synonym errno_t = int
type_synonym time_t = int


abbreviation EOK :: errno_t where "EOK \<equiv> 0"
abbreviation ENOENT :: errno_t where "ENOENT \<equiv> 2"
abbreviation EIO :: errno_t where "EIO \<equiv> 5"
abbreviation ENOMEM :: errno_t where "ENOMEM \<equiv> 12"
abbreviation EINVAL :: errno_t where "EINVAL \<equiv> 22"

text \<open>
  Modelled from the spec: the attribute-name macros of \<^verbatim>\<open>db/sysdb.h\<close> and
  \<^verbatim>\<open>db/sysdb_ssh.h\<close> are not in the source file. The specification names five
  attributes the component handles (object class, name, aliases, last update, known-hosts
  expiry) next to the caller's own metadata; they are the constructors of one type, so
  that they are distinct names. \<open>Attr k\<close> is any other attribute name.
\<close>

datatype attr_name =
    SYSDB_OBJECTCLASS
  | SYSDB_NAME
  | SYSDB_NAME_ALIAS
  | SYSDB_LAST_UPDATE
  | SYSDB_SSH_KNOWN_HOSTS_EXPIRE
  | Attr string

text \<open>
  Modelled from the spec: the value of the object-class marker \<^verbatim>\<open>SYSDB_SSH_HOST_OC\<close>
  (a macro of \<^verbatim>\<open>db/sysdb_ssh.h\<close>); only its being one fixed string matters.
\<close>

definition SYSDB_SSH_HOST_OC :: string where
  "SYSDB_SSH_HOST_OC = ''sshHost''"

text \<open>
  An attribute value is a string or a time (the specification's "string/time values");
  \<^verbatim>\<open>sysdb_attrs_add_string\<close> adds the first kind, \<^verbatim>\<open>sysdb_attrs_add_time_t\<close> the
  second.
\<close>

datatype ldb_val = Str string | Time time_t

text \<open>
  A value is held as bytes (\<^verbatim>\<open>struct ldb_val\<close>: \<^verbatim>\<open>data\<close> and \<^verbatim>\<open>length\<close>, the
  bytes followed by a NUL), and line 113 reads them through \<^verbatim>\<open>(char *)\<close>. A string
  value may hold any bytes, NUL among them. Modelled from the spec: the bytes that
  \<^verbatim>\<open>sysdb_attrs_add_time_t\<close> (\<^verbatim>\<open>db/sysdb.c\<close>, not in the source file) holds for a
  time. The specification leaves them open; they are taken to be the decimal digits,
  the \<^verbatim>\<open>%ld\<close> by which line 338 writes a time into a filter. No property below depends
  on the digits: a time is never a text.
\<close>

fun digits :: "nat \<Rightarrow> string" where
  "digits n =
     (if n < 10 then [''0123456789'' ! n]
      else digits (n div 10) @ [''0123456789'' ! (n mod 10)])"

definition decimal :: "int \<Rightarrow> string" where
  "decimal i = (if i < 0 then CHR ''-'' # digits (nat (- i)) else digits (nat i))"

fun val_data :: "ldb_val \<Rightarrow> string" where
  "val_data (Str bytes) = bytes"
| "val_data (Time t) = decimal t"

text \<open>
  \<^verbatim>\<open>strcmp\<close> of the C library, on the bytes at its two pointers: the bytes are
  compared as unsigned characters up to the first difference or the first NUL, and the
  end of the list stands for the terminating NUL. \<open>c_string\<close> is the C string at the
  start of some bytes, the bytes before the first NUL: \<^verbatim>\<open>strcmp\<close> returns 0 exactly
  when the two C strings are equal. A \<^verbatim>\<open>const char *\<close> argument of the file (a name,
  an alias) is given by the string it points to.
\<close>

definition c_string :: "string \<Rightarrow> string" where
  "c_string bytes = takeWhile (\<lambda>c. c \<noteq> CHR 0x00) bytes"

fun strcmp :: "string \<Rightarrow> string \<Rightarrow> int" where
  "strcmp [] [] = 0"
| "strcmp [] (b # bs) = (if b = CHR 0x00 then 0 else - 1)"
| "strcmp (a # as) [] = (if a = CHR 0x00 then 0 else 1)"
| "strcmp (a # as) (b # bs) =
     (if a \<noteq> b then (if (of_char a :: nat) < of_char b then - 1 else 1)
      else if a = CHR 0x00 then 0
      else strcmp as bs)"

type_synonym ldb_message_element = "attr_name \<times> ldb_val list"
type_synonym ldb_message = "ldb_message_element list"
type_synonym sysdb_attrs = "ldb_message_element list"

text \<open>
  The two filters the file builds with \<^verbatim>\<open>talloc_asprintf\<close>:
  \<^verbatim>\<open>"(%s=%s)"\<close> and \<^verbatim>\<open>"(%s>=%ld)"\<close>.
\<close>

datatype search_filter = Filter_eq attr_name string | Filter_ge attr_name time_t

text \<open>\<^verbatim>\<open>ldb_msg_find_element\<close>: the first element of that name, if any.\<close>

fun ldb_msg_find_element :: "ldb_message \<Rightarrow> attr_name \<Rightarrow> ldb_val list option" where
  "ldb_msg_find_element [] a = None"
| "ldb_msg_find_element ((b, vs) # els) a =
     (if a = b then Some vs else ldb_msg_find_element els a)"

text \<open>The values a message or bag holds under a name (none when the name is absent).\<close>

definition attr_values :: "ldb_message \<Rightarrow> attr_name \<Rightarrow> ldb_val list" where
  "attr_values m a = (case ldb_msg_find_element m a of None \<Rightarrow> [] | Some vs \<Rightarrow> vs)"

subsection \<open>The collaborators' state\<close>

text \<open>
  Every call the file makes to a collaborator is an event; the state records each one
  with the code it returned, in order.
\<close>

datatype event =
    Talloc_new
  | Talloc_asprintf
  | Sysdb_new_attrs
  | Attrs_add attr_name ldb_val
  | Transaction_start
  | Transaction_commit
  | Transaction_cancel
  | Search_custom search_filter "attr_name list option"
  | Store_custom string sysdb_attrs

text \<open>
  \<open>entries\<close> is the subtree \<^verbatim>\<open>SSH_HOSTS_SUBDIR\<close> of the store, the only one the file
  addresses: the objects by name. \<open>open_txns\<close> holds, for each open transaction, the
  entries as they were when it was started. \<open>faults\<close> is the outcome oracle: given the
  calls made so far and the next call, the error code that call fails with, or \<open>EOK\<close>
  to let it run. \<open>search_empty_ok\<close> is the one convention of the store the file depends
  on and the specification leaves open: whether a search that matches nothing succeeds
  with zero records (\<open>True\<close>) or returns \<open>ENOENT\<close> (\<open>False\<close>, the convention the
  \<^verbatim>\<open>ENOENT\<close> branch of \<^verbatim>\<open>sysdb_search_ssh_hosts\<close> handles).
\<close>

record sysdb_ctx =
  entries :: "(string \<times> ldb_message) list"
  open_txns :: "(string \<times> ldb_message) list list"
  search_empty_ok :: bool
  faults :: "(event \<times> errno_t) list \<Rightarrow> event \<Rightarrow> errno_t"
  calls :: "(event \<times> errno_t) list"

definition reply :: "sysdb_ctx \<Rightarrow> event \<Rightarrow> errno_t" where
  "reply s e = faults s (calls s) e"

definition logged :: "event \<Rightarrow> errno_t \<Rightarrow> sysdb_ctx \<Rightarrow> sysdb_ctx" where
  "logged e r s = s\<lparr>calls := calls s @ [(e, r)]\<rparr>"

subsection \<open>Allocation and the attribute bag\<close>

text \<open>
  \<^verbatim>\<open>talloc_new\<close>, \<^verbatim>\<open>talloc_asprintf\<close> and \<^verbatim>\<open>sysdb_new_attrs\<close> return a pointer,
  \<^verbatim>\<open>NULL\<close> on failure; the model returns whether the pointer is non-null.
\<close>

definition alloc :: "event \<Rightarrow> sysdb_ctx \<Rightarrow> bool \<times> sysdb_ctx" where
  "alloc e s = (let r = reply s e in (r = EOK, logged e r s))"

definition talloc_new :: "sysdb_ctx \<Rightarrow> bool \<times> sysdb_ctx" where
  "talloc_new = alloc Talloc_new"

definition talloc_asprintf :: "sysdb_ctx \<Rightarrow> bool \<times> sysdb_ctx" where
  "talloc_asprintf = alloc Talloc_asprintf"

definition sysdb_new_attrs :: "sysdb_ctx \<Rightarrow> bool \<times> sysdb_ctx" where
  "sysdb_new_attrs = alloc Sysdb_new_attrs"

text \<open>
  Modelled from the spec: \<^verbatim>\<open>sysdb_attrs_add_val\<close> and its wrappers
  \<^verbatim>\<open>sysdb_attrs_add_string\<close> and \<^verbatim>\<open>sysdb_attrs_add_time_t\<close> (\<^verbatim>\<open>db/sysdb.c\<close>, not in
  the source file). The bag maps an attribute key to one or many values: a value is
  appended to the values of its key, and a key not yet in the bag is added at the end.
  A failing call leaves the bag as it was ("no partial state").
\<close>

fun attrs_append :: "sysdb_attrs \<Rightarrow> attr_name \<Rightarrow> ldb_val \<Rightarrow> sysdb_attrs" where
  "attrs_append [] a v = [(a, [v])]"
| "attrs_append ((b, vs) # els) a v =
     (if a = b then (b, vs @ [v]) # els else (b, vs) # attrs_append els a v)"

definition sysdb_attrs_add_val ::
  "sysdb_ctx \<Rightarrow> sysdb_attrs \<Rightarrow> attr_name \<Rightarrow> ldb_val \<Rightarrow> errno_t \<times> sysdb_attrs \<times> sysdb_ctx" where
  "sysdb_attrs_add_val s attrs a v =
     (let r = reply s (Attrs_add a v)
      in (r, if r = EOK then attrs_append attrs a v else attrs, logged (Attrs_add a v) r s))"

definition sysdb_attrs_add_string ::
  "sysdb_ctx \<Rightarrow> sysdb_attrs \<Rightarrow> attr_name \<Rightarrow> string \<Rightarrow> errno_t \<times> sysdb_attrs \<times> sysdb_ctx" where
  "sysdb_attrs_add_string s attrs a str = sysdb_attrs_add_val s attrs a (Str str)"

definition sysdb_attrs_add_time_t ::
  "sysdb_ctx \<Rightarrow> sysdb_attrs \<Rightarrow> attr_name \<Rightarrow> time_t \<Rightarrow> errno_t \<times> sysdb_attrs \<times> sysdb_ctx" where
  "sysdb_attrs_add_time_t s attrs a t = sysdb_attrs_add_val s attrs a (Time t)"

subsection \<open>The object store\<close>

text \<open>
  Modelled from the spec: \<^verbatim>\<open>sysdb_transaction_start\<close>, \<^verbatim>\<open>sysdb_transaction_commit\<close>
  and \<^verbatim>\<open>sysdb_transaction_cancel\<close> (\<^verbatim>\<open>db/sysdb.c\<close>, not in the source file): the
  transactional grouping of writes. Starting a transaction remembers the entries;
  committing keeps the entries written since; cancelling puts the remembered entries
  back. A call that fails has no effect; committing or cancelling with no transaction
  open fails with \<open>EIO\<close>.
\<close>

definition sysdb_transaction_start :: "sysdb_ctx \<Rightarrow> errno_t \<times> sysdb_ctx" where
  "sysdb_transaction_start s =
     (let r = reply s Transaction_start
      in if r \<noteq> EOK then (r, logged Transaction_start r s)
         else (EOK, logged Transaction_start EOK (s\<lparr>open_txns := entries s # open_txns s\<rparr>)))"

definition sysdb_transaction_commit :: "sysdb_ctx \<Rightarrow> errno_t \<times> sysdb_ctx" where
  "sysdb_transaction_commit s =
     (let r = reply s Transaction_commit
      in if r \<noteq> EOK then (r, logged Transaction_commit r s)
         else (case open_txns s of
                 [] \<Rightarrow> (EIO, logged Transaction_commit EIO s)
               | saved # outer \<Rightarrow>
                   (EOK, logged Transaction_commit EOK (s\<lparr>open_txns := outer\<rparr>))))"

definition sysdb_transaction_cancel :: "sysdb_ctx \<Rightarrow> errno_t \<times> sysdb_ctx" where
  "sysdb_transaction_cancel s =
     (let r = reply s Transaction_cancel
      in if r \<noteq> EOK then (r, logged Transaction_cancel r s)
         else (case open_txns s of
                 [] \<Rightarrow> (EIO, logged Transaction_cancel EIO s)
               | saved # outer \<Rightarrow>
                   (EOK, logged Transaction_cancel EOK
                           (s\<lparr>entries := saved, open_txns := outer\<rparr>))))"

text \<open>
  Modelled from the spec: \<^verbatim>\<open>sysdb_store_custom\<close> (\<^verbatim>\<open>db/sysdb_ops.c\<close>, not in the
  source file), the store's \<open>storeMerge\<close>: create the record if absent; otherwise
  replace only the attributes present in the attribute set, leaving others untouched.
\<close>

definition replace_elements :: "ldb_message \<Rightarrow> sysdb_attrs \<Rightarrow> ldb_message" where
  "replace_elements m attrs = filter (\<lambda>el. fst el \<notin> fst ` set attrs) m @ attrs"

fun store_merge ::
  "(string \<times> ldb_message) list \<Rightarrow> string \<Rightarrow> sysdb_attrs \<Rightarrow> (string \<times> ldb_message) list" where
  "store_merge [] name attrs = [(name, attrs)]"
| "store_merge ((k, m) # es) name attrs =
     (if k = name then (k, replace_elements m attrs) # es
      else (k, m) # store_merge es name attrs)"

definition sysdb_store_custom ::
  "sysdb_ctx \<Rightarrow> string \<Rightarrow> sysdb_attrs \<Rightarrow> errno_t \<times> sysdb_ctx" where
  "sysdb_store_custom s name attrs =
     (let r = reply s (Store_custom name attrs)
      in if r \<noteq> EOK then (r, logged (Store_custom name attrs) r s)
         else (EOK, logged (Store_custom name attrs) EOK
                      (s\<lparr>entries := store_merge (entries s) name attrs\<rparr>)))"

text \<open>
  Modelled from the spec: \<^verbatim>\<open>sysdb_search_custom\<close> (\<^verbatim>\<open>db/sysdb_ops.c\<close>, not in the
  source file), the store's filtered search within the namespace: exact match on one
  attribute, or greater-or-equal on one timestamp attribute; the records come back
  restricted to the requested attributes (\<open>None\<close> is the \<^verbatim>\<open>NULL\<close> list: all of them).
  When nothing matches the call returns \<open>ENOENT\<close>, or succeeds with zero records in a
  store with \<open>search_empty_ok\<close>.
\<close>

fun matches :: "search_filter \<Rightarrow> ldb_message \<Rightarrow> bool" where
  "matches (Filter_eq a v) m = (Str v \<in> set (attr_values m a))"
| "matches (Filter_ge a t) m =
     list_ex (\<lambda>v. case v of Time x \<Rightarrow> t \<le> x | Str str \<Rightarrow> False) (attr_values m a)"

definition project_msg :: "attr_name list option \<Rightarrow> ldb_message \<Rightarrow> ldb_message" where
  "project_msg attrs m =
     (case attrs of None \<Rightarrow> m | Some as \<Rightarrow> filter (\<lambda>el. fst el \<in> set as) m)"

definition search_entries ::
  "(string \<times> ldb_message) list \<Rightarrow> search_filter \<Rightarrow> attr_name list option \<Rightarrow> ldb_message list" where
  "search_entries es f attrs = map (project_msg attrs) (filter (matches f) (map snd es))"

definition sysdb_search_custom ::
  "sysdb_ctx \<Rightarrow> search_filter \<Rightarrow> attr_name list option
     \<Rightarrow> errno_t \<times> ldb_message list \<times> sysdb_ctx" where
  "sysdb_search_custom s f attrs =
     (let r = reply s (Search_custom f attrs);
          results = search_entries (entries s) f attrs
      in if r \<noteq> EOK then (r, [], logged (Search_custom f attrs) r s)
         else if results = [] \<and> \<not> search_empty_ok s
         then (ENOENT, [], logged (Search_custom f attrs) ENOENT s)
         else (EOK, results, logged (Search_custom f attrs) EOK s))"

subsection \<open>The functions of sysdb\_ssh.c\<close>

text \<open>\<^verbatim>\<open>sysdb_update_ssh_host\<close> (lines 26--54): one write through the store.\<close>

definition sysdb_update_ssh_host ::
  "sysdb_ctx \<Rightarrow> string \<Rightarrow> sysdb_attrs \<Rightarrow> errno_t \<times> sysdb_ctx" where
  "sysdb_update_ssh_host sysdb name attrs =
     (case talloc_new sysdb of
        (tmp_ctx, s) \<Rightarrow>
          if \<not> tmp_ctx then (ENOMEM, s)
          else sysdb_store_custom s name attrs)"

text \<open>
  \<^verbatim>\<open>sysdb_search_ssh_hosts\<close> (lines 233--273). The out-parameters \<^verbatim>\<open>*hosts\<close> and
  \<^verbatim>\<open>*num_hosts\<close> are the second component: \<open>None\<close> when the function leaves them
  untouched, \<open>Some hosts\<close> when it assigns them. On \<^verbatim>\<open>ENOENT\<close> they are assigned
  \<^verbatim>\<open>NULL\<close> and 0, and \<^verbatim>\<open>ret\<close> stays \<^verbatim>\<open>ENOENT\<close>.
\<close>

definition sysdb_search_ssh_hosts ::
  "sysdb_ctx \<Rightarrow> search_filter \<Rightarrow> attr_name list option
     \<Rightarrow> errno_t \<times> ldb_message list option \<times> sysdb_ctx" where
  "sysdb_search_ssh_hosts sysdb f attrs =
     (case talloc_new sysdb of
        (tmp_ctx, s) \<Rightarrow>
          if \<not> tmp_ctx then (ENOMEM, None, s)
          else
          (case sysdb_search_custom s f attrs of
             (ret, results, s') \<Rightarrow>
               if ret \<noteq> EOK \<and> ret \<noteq> ENOENT then (ret, None, s')
               else if ret = ENOENT then (ret, Some [], s')
               else (EOK, Some results, s')))"

text \<open>
  \<^verbatim>\<open>sysdb_get_ssh_host\<close> (lines 275--319). The out-parameter \<^verbatim>\<open>*host\<close> is the second
  component, \<open>None\<close> when it is not assigned. Line 312 reads \<^verbatim>\<open>hosts[0]\<close> whenever the
  search returned \<^verbatim>\<open>EOK\<close> with \<^verbatim>\<open>num_hosts <= 1\<close>; with zero records that read is out
  of bounds, and the model's result is \<open>None\<close>: the behaviour is undefined.
\<close>

definition sysdb_get_ssh_host ::
  "sysdb_ctx \<Rightarrow> string \<Rightarrow> attr_name list option
     \<Rightarrow> (errno_t \<times> ldb_message option \<times> sysdb_ctx) option" where
  "sysdb_get_ssh_host sysdb name attrs =
     (case talloc_new sysdb of
        (tmp_ctx, s) \<Rightarrow>
          if \<not> tmp_ctx then Some (ENOMEM, None, s)
          else
          (case talloc_asprintf s of
             (filter_str, s1) \<Rightarrow>
               if \<not> filter_str then Some (ENOMEM, None, s1)
               else
               (case sysdb_search_ssh_hosts s1 (Filter_eq SYSDB_NAME name) attrs of
                  (ret, hosts, s2) \<Rightarrow>
                    if ret \<noteq> EOK then Some (ret, None, s2)
                    else (case hosts of
                            None \<Rightarrow> None
                          | Some hs \<Rightarrow>
                              if length hs > 1 then Some (EINVAL, None, s2)
                              else (case hs of
                                      [] \<Rightarrow> None
                                    | h # rest \<Rightarrow> Some (EOK, Some h, s2))))))"

text \<open>
  \<^verbatim>\<open>sysdb_get_ssh_known_hosts\<close> (lines 321--352): the range search on the expiry
  attribute; the result of \<^verbatim>\<open>sysdb_search_ssh_hosts\<close> is returned as it is.
\<close>

definition sysdb_get_ssh_known_hosts ::
  "sysdb_ctx \<Rightarrow> time_t \<Rightarrow> attr_name list option
     \<Rightarrow> errno_t \<times> ldb_message list option \<times> sysdb_ctx" where
  "sysdb_get_ssh_known_hosts sysdb now attrs =
     (case talloc_new sysdb of
        (tmp_ctx, s) \<Rightarrow>
          if \<not> tmp_ctx then (ENOMEM, None, s)
          else
          (case talloc_asprintf s of
             (filter_str, s1) \<Rightarrow>
               if \<not> filter_str then (ENOMEM, None, s1)
               else
               sysdb_search_ssh_hosts s1 (Filter_ge SYSDB_SSH_KNOWN_HOSTS_EXPIRE now) attrs))"


text \<open>
  \<^verbatim>\<open>sysdb_store_ssh_host\<close> (lines 56--177), in four parts. The caller's bag
  \<^verbatim>\<open>attrs\<close> is modified in place, so every part returns the bag as it leaves it.

  The label \<^verbatim>\<open>done\<close> (lines 166--176): an open transaction is cancelled, the result
  of the cancel is only logged, and \<^verbatim>\<open>ret\<close> is returned.
\<close>

definition store_ssh_host_done ::
  "bool \<Rightarrow> errno_t \<Rightarrow> sysdb_attrs \<Rightarrow> sysdb_ctx \<Rightarrow> errno_t \<times> sysdb_attrs \<times> sysdb_ctx" where
  "store_ssh_host_done in_transaction ret attrs s =
     (if in_transaction
      then (case sysdb_transaction_cancel s of (sret, s') \<Rightarrow> (ret, attrs, s'))
      else (ret, attrs, s))"

text \<open>
  The loop of lines 112--125 over the values of the existing entry's alias element:
  \<^verbatim>\<open>new_alias\<close> is cleared when \<^verbatim>\<open>strcmp\<close> finds the bytes of a value equal to the
  alias (line 113), and every value is added to the bag; the first failing addition
  leaves the loop with its error.
\<close>

fun copy_aliases ::
  "sysdb_ctx \<Rightarrow> sysdb_attrs \<Rightarrow> string \<Rightarrow> bool \<Rightarrow> ldb_val list
     \<Rightarrow> errno_t \<times> bool \<times> sysdb_attrs \<times> sysdb_ctx" where
  "copy_aliases s attrs alias new_alias [] = (EOK, new_alias, attrs, s)"
| "copy_aliases s attrs alias new_alias (v # vs) =
     (let new_alias' = (if strcmp (val_data v) alias = 0 then False else new_alias)
      in case sysdb_attrs_add_val s attrs SYSDB_NAME_ALIAS v of
           (ret, attrs', s') \<Rightarrow>
             if ret \<noteq> EOK then (ret, new_alias', attrs', s')
             else copy_aliases s' attrs' alias new_alias' vs)"

text \<open>
  Lines 102--138, inside the transaction: the existing entry is looked up with
  \<^verbatim>\<open>search_attrs = { SYSDB_NAME_ALIAS, NULL }\<close>, its aliases are copied, and the alias
  is added if it is new. A result other than \<open>EOK\<close> is the \<^verbatim>\<open>goto done\<close>.
\<close>

definition store_ssh_host_merge ::
  "sysdb_ctx \<Rightarrow> string \<Rightarrow> string \<Rightarrow> sysdb_attrs
     \<Rightarrow> (errno_t \<times> sysdb_attrs \<times> sysdb_ctx) option" where
  "store_ssh_host_merge s name alias attrs =
     (case sysdb_get_ssh_host s name (Some [SYSDB_NAME_ALIAS]) of
        None \<Rightarrow> None
      | Some (ret, host, s1) \<Rightarrow>
          if ret \<noteq> EOK \<and> ret \<noteq> ENOENT then Some (ret, attrs, s1)
          else
            (case (case host of
                     None \<Rightarrow> (EOK, True, attrs, s1)
                   | Some h \<Rightarrow>
                       (case ldb_msg_find_element h SYSDB_NAME_ALIAS of
                          None \<Rightarrow> (EOK, True, attrs, s1)
                        | Some vs \<Rightarrow> copy_aliases s1 attrs alias True vs)) of
               (ret', new_alias, attrs', s2) \<Rightarrow>
                 if ret' \<noteq> EOK then Some (ret', attrs', s2)
                 else if new_alias
                 then Some (sysdb_attrs_add_string s2 attrs' SYSDB_NAME_ALIAS alias)
                 else Some (EOK, attrs', s2)))"

text \<open>
  Lines 141--164: the update time is added, the bag is written, and the transaction,
  if one is open, is committed.
\<close>

definition store_ssh_host_write ::
  "bool \<Rightarrow> sysdb_ctx \<Rightarrow> string \<Rightarrow> time_t \<Rightarrow> sysdb_attrs
     \<Rightarrow> errno_t \<times> sysdb_attrs \<times> sysdb_ctx" where
  "store_ssh_host_write in_transaction s name now attrs =
     (case sysdb_attrs_add_time_t s attrs SYSDB_LAST_UPDATE now of
        (ret, attrs', s1) \<Rightarrow>
          if ret \<noteq> EOK then store_ssh_host_done in_transaction ret attrs' s1
          else
            (case sysdb_update_ssh_host s1 name attrs' of
               (ret, s2) \<Rightarrow>
                 if ret \<noteq> EOK then store_ssh_host_done in_transaction ret attrs' s2
                 else if in_transaction
                 then (case sysdb_transaction_commit s2 of
                         (ret, s3) \<Rightarrow>
                           if ret \<noteq> EOK then store_ssh_host_done True ret attrs' s3
                           else store_ssh_host_done False EOK attrs' s3)
                 else store_ssh_host_done False EOK attrs' s2))"

text \<open>
  The whole function. \<open>alias\<close> is \<open>None\<close> for the \<^verbatim>\<open>NULL\<close> pointer. The result is
  \<open>None\<close> when the lookup reads out of bounds; otherwise it is the returned code, the
  caller's bag as the call leaves it, and the collaborators' state.
\<close>

definition sysdb_store_ssh_host ::
  "sysdb_ctx \<Rightarrow> string \<Rightarrow> string option \<Rightarrow> time_t \<Rightarrow> sysdb_attrs
     \<Rightarrow> (errno_t \<times> sysdb_attrs \<times> sysdb_ctx) option" where
  "sysdb_store_ssh_host sysdb name alias now attrs =
     (case talloc_new sysdb of
        (tmp_ctx, s) \<Rightarrow>
          if \<not> tmp_ctx then Some (ENOMEM, attrs, s)
          else
          (case sysdb_attrs_add_string s attrs SYSDB_OBJECTCLASS SYSDB_SSH_HOST_OC of
             (ret, attrs1, s1) \<Rightarrow>
               if ret \<noteq> EOK then Some (store_ssh_host_done False ret attrs1 s1)
               else
                 (case sysdb_attrs_add_string s1 attrs1 SYSDB_NAME name of
                    (ret, attrs2, s2) \<Rightarrow>
                      if ret \<noteq> EOK then Some (store_ssh_host_done False ret attrs2 s2)
                      else
                        (case alias of
                           None \<Rightarrow> Some (store_ssh_host_write False s2 name now attrs2)
                         | Some al \<Rightarrow>
                             (case sysdb_transaction_start s2 of
                                (ret, s3) \<Rightarrow>
                                  if ret \<noteq> EOK
                                  then Some (store_ssh_host_done False ret attrs2 s3)
                                  else
                                    (case store_ssh_host_merge s3 name al attrs2 of
                                       None \<Rightarrow> None
                                     | Some (ret, attrs3, s4) \<Rightarrow>
                                         if ret \<noteq> EOK
                                         then Some (store_ssh_host_done True ret attrs3 s4)
                                         else Some (store_ssh_host_write True s4 name now
                                                      attrs3)))))))"

subsection \<open>Observing a call: the calls it made, the entries it left\<close>

text \<open>The calls recorded between two states.\<close>

definition new_calls :: "sysdb_ctx \<Rightarrow> sysdb_ctx \<Rightarrow> (event \<times> errno_t) list" where
  "new_calls s s' = drop (length (calls s)) (calls s')"

text \<open>The calls that reach the object store: transactions, searches and writes.\<close>

fun is_store_call :: "event \<Rightarrow> bool" where
  "is_store_call Transaction_start = True"
| "is_store_call Transaction_commit = True"
| "is_store_call Transaction_cancel = True"
| "is_store_call (Search_custom f attrs) = True"
| "is_store_call (Store_custom name attrs) = True"
| "is_store_call e = False"

definition store_calls :: "(event \<times> errno_t) list \<Rightarrow> (event \<times> errno_t) list" where
  "store_calls evs = filter (\<lambda>c. is_store_call (fst c)) evs"

text \<open>The values stored under an attribute of the entry of a name, if there are any.\<close>

definition stored ::
  "(string \<times> ldb_message) list \<Rightarrow> string \<Rightarrow> attr_name \<Rightarrow> ldb_val list option" where
  "stored es k a =
     (case map_of es k of None \<Rightarrow> None | Some m \<Rightarrow> ldb_msg_find_element m a)"

text \<open>
  Two states for the examples: an empty store, and a store that holds the entry of
  \<open>host1\<close> with one alias and an expiry time. Their oracle lets every call run.
\<close>

definition empty_store :: sysdb_ctx where
  "empty_store =
     \<lparr>entries = [], open_txns = [], search_empty_ok = False,
      faults = (\<lambda>h e. EOK), calls = []\<rparr>"

definition host1_store :: sysdb_ctx where
  "host1_store =
     \<lparr>entries =
        [(''host1'',
          [(Attr ''region'', [Str ''us'']),
           (SYSDB_OBJECTCLASS, [Str SYSDB_SSH_HOST_OC]),
           (SYSDB_NAME, [Str ''host1'']),
           (SYSDB_NAME_ALIAS, [Str ''h1.example.com'']),
           (SYSDB_LAST_UPDATE, [Time 1000]),
           (SYSDB_SSH_KNOWN_HOSTS_EXPIRE, [Time 1310])])],
      open_txns = [], search_empty_ok = False,
      faults = (\<lambda>h e. EOK), calls = []\<rparr>"

text \<open>
  The bag after the additions that a list of calls records: each successful
  \<^verbatim>\<open>sysdb_attrs_add_*\<close> call appends its value, in the order of the calls.
\<close>

fun apply_adds :: "sysdb_attrs \<Rightarrow> (event \<times> errno_t) list \<Rightarrow> sysdb_attrs" where
  "apply_adds attrs [] = attrs"
| "apply_adds attrs ((Attrs_add a v, r) # cs) =
     apply_adds (if r = EOK then attrs_append attrs a v else attrs) cs"
| "apply_adds attrs (c # cs) = apply_adds attrs cs"

text \<open>
  The bag with a list of values added as aliases, and the state with these additions
  recorded: what the loop of lines 112--125 leaves when no addition fails.
\<close>

definition copied :: "sysdb_attrs \<Rightarrow> ldb_val list \<Rightarrow> sysdb_attrs" where
  "copied attrs vs = foldl (\<lambda>b v. attrs_append b SYSDB_NAME_ALIAS v) attrs vs"

definition copy_logged :: "sysdb_ctx \<Rightarrow> ldb_val list \<Rightarrow> sysdb_ctx" where
  "copy_logged s vs = foldl (\<lambda>s v. logged (Attrs_add SYSDB_NAME_ALIAS v) EOK s) s vs"

text \<open>
  The test of line 113 over a list of values: some value has bytes that \<^verbatim>\<open>strcmp\<close>
  finds equal to the alias. A value that is the alias is found; a value found need not
  be the alias, since the comparison stops at a NUL byte of the value. A text is a
  string value without a NUL byte, and for texts the two coincide.
\<close>

definition alias_found :: "string \<Rightarrow> ldb_val list \<Rightarrow> bool" where
  "alias_found alias vs = list_ex (\<lambda>v. strcmp (val_data v) alias = 0) vs"

definition is_c_string :: "string \<Rightarrow> bool" where
  "is_c_string bytes \<longleftrightarrow> CHR 0x00 \<notin> set bytes"

fun is_text :: "ldb_val \<Rightarrow> bool" where
  "is_text (Str bytes) = is_c_string bytes"
| "is_text (Time t) = False"

text \<open>
  The aliases that exist for a name before a call: the alias values of the first entry
  whose name attribute holds the name (there is at most one in a consistent store), and
  none when there is no such entry.
\<close>

definition existing_aliases :: "sysdb_ctx \<Rightarrow> string \<Rightarrow> ldb_val list" where
  "existing_aliases s name =
     (case search_entries (entries s) (Filter_eq SYSDB_NAME name) None of
        [] \<Rightarrow> []
      | h # hs \<Rightarrow> attr_values h SYSDB_NAME_ALIAS)"


text \<open>
  The bag that a call with an alias leaves when every call succeeds, for a caller's bag
  \<open>attrs\<close> and the list \<open>old\<close> of the aliases found: the object class and the name
  are added, then the aliases found, then the alias unless the test of line 113 found
  it among them, then the update time.
\<close>

definition merged_bag ::
  "sysdb_attrs \<Rightarrow> string \<Rightarrow> ldb_val list \<Rightarrow> string \<Rightarrow> time_t \<Rightarrow> sysdb_attrs" where
  "merged_bag attrs name old alias now =
     attrs_append
       (if alias_found alias old
        then copied
               (attrs_append (attrs_append attrs SYSDB_OBJECTCLASS (Str SYSDB_SSH_HOST_OC))
                  SYSDB_NAME (Str name)) old
        else attrs_append
               (copied
                  (attrs_append (attrs_append attrs SYSDB_OBJECTCLASS (Str SYSDB_SSH_HOST_OC))
                     SYSDB_NAME (Str name)) old)
               SYSDB_NAME_ALIAS (Str alias))
       SYSDB_LAST_UPDATE (Time now)"

text \<open>The set of the values stored under an attribute of the entry of a name.\<close>

definition stored_set ::
  "(string \<times> ldb_message) list \<Rightarrow> string \<Rightarrow> attr_name \<Rightarrow> ldb_val set" where
  "stored_set es k a = (case stored es k a of None \<Rightarrow> {} | Some vs \<Rightarrow> set vs)"

text \<open>
  More states for the examples: a store in which two entries carry the name \<open>host1\<close>,
  and two oracles, one that fails every commit and one that fails every write, both with
  the code \<open>EIO\<close>.
\<close>

definition twice_host1_store :: sysdb_ctx where
  "twice_host1_store =
     \<lparr>entries =
        [(''host1'',
          [(SYSDB_NAME, [Str ''host1'']), (SYSDB_NAME_ALIAS, [Str ''h1.example.com''])]),
         (''host1.copy'',
          [(SYSDB_NAME, [Str ''host1'']), (SYSDB_NAME_ALIAS, [Str ''h1.example.org''])])],
      open_txns = [], search_empty_ok = False,
      faults = (\<lambda>h e. EOK), calls = []\<rparr>"

definition commit_fails :: "(event \<times> errno_t) list \<Rightarrow> event \<Rightarrow> errno_t" where
  "commit_fails h e = (case e of Transaction_commit \<Rightarrow> EIO | _ \<Rightarrow> EOK)"

definition write_fails :: "(event \<times> errno_t) list \<Rightarrow> event \<Rightarrow> errno_t" where
  "write_fails h e = (case e of Store_custom name attrs \<Rightarrow> EIO | _ \<Rightarrow> EOK)"

definition host1_commit_fails :: sysdb_ctx where
  "host1_commit_fails = host1_store\<lparr>faults := commit_fails\<rparr>"

definition host1_write_fails :: sysdb_ctx where
  "host1_write_fails = host1_store\<lparr>faults := write_fails\<rparr>"

text \<open>
  An oracle that fails every search with the code \<open>EINVAL\<close>, over the store of
  \<open>host1\<close>; and an oracle that fails every cancel with \<open>EIO\<close>, over the store in
  which two entries carry the name.
\<close>

definition search_fails :: "(event \<times> errno_t) list \<Rightarrow> event \<Rightarrow> errno_t" where
  "search_fails h e = (case e of Search_custom f attrs \<Rightarrow> EINVAL | _ \<Rightarrow> EOK)"

definition cancel_fails :: "(event \<times> errno_t) list \<Rightarrow> event \<Rightarrow> errno_t" where
  "cancel_fails h e = (case e of Transaction_cancel \<Rightarrow> EIO | _ \<Rightarrow> EOK)"

definition host1_search_fails :: sysdb_ctx where
  "host1_search_fails = host1_store\<lparr>faults := search_fails\<rparr>"

definition twice_host1_cancel_fails :: sysdb_ctx where
  "twice_host1_cancel_fails = twice_host1_store\<lparr>faults := cancel_fails\<rparr>"



text \<open>
  A store whose entry of \<open>host1\<close> holds an alias with a NUL byte in it: the bytes
  \<open>h1\<close>, NUL, \<open>x\<close>.
\<close>

definition nul_alias_store :: sysdb_ctx where
  "nul_alias_store =
     \<lparr>entries =
        [(''host1'',
          [(SYSDB_NAME, [Str ''host1'']),
           (SYSDB_NAME_ALIAS, [Str [CHR ''h'', CHR ''1'', CHR 0x00, CHR ''x'']])])],
      open_txns = [], search_empty_ok = False,
      faults = (\<lambda>h e. EOK), calls = []\<rparr>"

section \<open>Properties\<close>

subsection \<open>Facts about the collaborators\<close>

lemma logged_fields [simp]:
  "entries (logged e r s) = entries s"
  "open_txns (logged e r s) = open_txns s"
  "search_empty_ok (logged e r s) = search_empty_ok s"
  "faults (logged e r s) = faults s"
  "calls (logged e r s) = calls s @ [(e, r)]"
  by (simp_all add: logged_def)

lemma new_calls_append: "calls s' = calls s @ evs \<Longrightarrow> new_calls s s' = evs"
  by (simp add: new_calls_def)

lemma find_element_None_iff: "ldb_msg_find_element m a = None \<longleftrightarrow> a \<notin> fst ` set m"
  by (induction m) (auto split: if_splits)

lemma find_element_notin: "a \<notin> fst ` set m \<Longrightarrow> ldb_msg_find_element m a = None"
  by (simp add: find_element_None_iff)

lemma find_element_append:
  "ldb_msg_find_element (m @ n) a =
     (case ldb_msg_find_element m a of None \<Rightarrow> ldb_msg_find_element n a | Some vs \<Rightarrow> Some vs)"
  by (induction m) auto

lemma find_element_filter_notin:
  "ldb_msg_find_element (filter (\<lambda>el. fst el \<notin> A) m) a =
     (if a \<in> A then None else ldb_msg_find_element m a)"
  by (induction m) auto

lemma find_element_replace:
  "ldb_msg_find_element (replace_elements m attrs) a =
     (if a \<in> fst ` set attrs then ldb_msg_find_element attrs a else ldb_msg_find_element m a)"
proof (cases "a \<in> fst ` set attrs")
  case True
  then show ?thesis
    by (simp add: replace_elements_def find_element_append find_element_filter_notin)
next
  case False
  then have "ldb_msg_find_element attrs a = None"
    by (rule find_element_notin)
  with False show ?thesis
    by (simp add: replace_elements_def find_element_append find_element_filter_notin
        split: option.splits)
qed

lemma find_element_attrs_append:
  "ldb_msg_find_element (attrs_append attrs a v) b =
     (if b = a then Some (attr_values attrs a @ [v]) else ldb_msg_find_element attrs b)"
  by (induction attrs) (auto simp: attr_values_def)

lemma map_of_store_merge:
  "map_of (store_merge es name attrs) =
     (map_of es)(name \<mapsto>
        (case map_of es name of None \<Rightarrow> attrs | Some m \<Rightarrow> replace_elements m attrs))"
  by (induction es) (auto simp: fun_eq_iff)

lemma stored_store_merge:
  "stored (store_merge es name attrs) k a =
     (if k = name \<and> a \<in> fst ` set attrs then ldb_msg_find_element attrs a
      else stored es k a)"
  by (auto simp: stored_def map_of_store_merge find_element_replace find_element_None_iff
      split: option.splits)


lemma strcmp_0_iff: "strcmp a b = 0 \<longleftrightarrow> c_string a = c_string b"
  by (induction a b rule: strcmp.induct) (auto simp: c_string_def)

lemma c_string_id: "is_c_string a \<Longrightarrow> c_string a = a"
  by (auto simp: c_string_def is_c_string_def takeWhile_eq_all_conv)

lemma alias_found_simps [simp]:
  "alias_found alias [] = False"
  "alias_found alias (v # vs) = (strcmp (val_data v) alias = 0 \<or> alias_found alias vs)"
  by (simp_all add: alias_found_def)

lemma alias_found_iff:
  "alias_found alias vs \<longleftrightarrow> (\<exists>v \<in> set vs. strcmp (val_data v) alias = 0)"
  by (simp add: alias_found_def list_ex_iff)

lemma alias_found_member: "Str alias \<in> set vs \<Longrightarrow> alias_found alias vs"
  by (force simp: alias_found_iff strcmp_0_iff)

lemma alias_found_text:
  assumes "list_all is_text vs" and "is_c_string alias"
  shows "alias_found alias vs \<longleftrightarrow> Str alias \<in> set vs"
proof
  assume "alias_found alias vs"
  then obtain v where v: "v \<in> set vs" and eq: "strcmp (val_data v) alias = 0"
    by (auto simp: alias_found_iff)
  from v assms(1) have "is_text v"
    by (simp add: list_all_iff)
  then obtain a where a: "v = Str a" "is_c_string a"
    by (cases v) simp_all
  with eq assms(2) have "a = alias"
    by (simp add: strcmp_0_iff c_string_id)
  with a v show "Str alias \<in> set vs"
    by simp
qed (rule alias_found_member)

lemmas call_defs =
  talloc_new_def talloc_asprintf_def sysdb_new_attrs_def alloc_def
  sysdb_attrs_add_string_def sysdb_attrs_add_time_t_def sysdb_attrs_add_val_def
  sysdb_transaction_start_def sysdb_transaction_commit_def sysdb_transaction_cancel_def
  sysdb_store_custom_def sysdb_search_custom_def

lemmas example_defs =
  empty_store_def host1_store_def reply_def new_calls_def store_calls_def stored_def
  search_entries_def project_msg_def attr_values_def SYSDB_SSH_HOST_OC_def

subsection \<open>The expiry update\<close>




subsection \<open>Storing a host without an alias\<close>

lemmas store_ssh_host_defs =
  sysdb_store_ssh_host_def store_ssh_host_write_def store_ssh_host_done_def
  sysdb_update_ssh_host_def

text \<open>
  C5. With the alias absent, \<^verbatim>\<open>sysdb_store_ssh_host\<close> always returns, and the only call
  it can make to the store is one write: no search and no transaction call is made, and
  the open transactions are as before. The write is made whenever \<open>EOK\<close> is returned,
  under the name, and its bag is the caller's bag with the object-class marker, the name
  and the update time \<open>now\<close> appended to their attributes; every other attribute of the
  written bag is the caller's.
\<close>

theorem store_ssh_host_without_alias:
  fixes s name now attrs
  defines "written \<equiv>
    attrs_append
      (attrs_append (attrs_append attrs SYSDB_OBJECTCLASS (Str SYSDB_SSH_HOST_OC))
         SYSDB_NAME (Str name))
      SYSDB_LAST_UPDATE (Time now)"
  shows "\<exists>ret attrs' s'.
           sysdb_store_ssh_host s name None now attrs = Some (ret, attrs', s')
         \<and> calls s' = calls s @ new_calls s s'
         \<and> (store_calls (new_calls s s') = []
             \<or> store_calls (new_calls s s') = [(Store_custom name written, ret)])
         \<and> (ret = EOK \<longrightarrow> store_calls (new_calls s s') \<noteq> [])
         \<and> open_txns s' = open_txns s
         \<and> (\<forall>a. ldb_msg_find_element written a =
                (if a = SYSDB_OBJECTCLASS
                 then Some (attr_values attrs a @ [Str SYSDB_SSH_HOST_OC])
                 else if a = SYSDB_NAME then Some (attr_values attrs a @ [Str name])
                 else if a = SYSDB_LAST_UPDATE then Some (attr_values attrs a @ [Time now])
                 else ldb_msg_find_element attrs a))"
proof -
  have "\<forall>a. ldb_msg_find_element written a =
                (if a = SYSDB_OBJECTCLASS
                 then Some (attr_values attrs a @ [Str SYSDB_SSH_HOST_OC])
                 else if a = SYSDB_NAME then Some (attr_values attrs a @ [Str name])
                 else if a = SYSDB_LAST_UPDATE then Some (attr_values attrs a @ [Time now])
                 else ldb_msg_find_element attrs a)"
    by (simp add: written_def find_element_attrs_append attr_values_def)
  moreover have "\<exists>ret attrs' s'.
           sysdb_store_ssh_host s name None now attrs = Some (ret, attrs', s')
         \<and> calls s' = calls s @ new_calls s s'
         \<and> (store_calls (new_calls s s') = []
             \<or> store_calls (new_calls s s') = [(Store_custom name written, ret)])
         \<and> (ret = EOK \<longrightarrow> store_calls (new_calls s s') \<noteq> [])
         \<and> open_txns s' = open_txns s"
    by (simp add: written_def store_ssh_host_defs call_defs Let_def store_calls_def
        new_calls_append)
  ultimately show ?thesis by blast
qed

theorem store_ssh_host_without_alias_witness:
  "\<exists>attrs' s'.
     sysdb_store_ssh_host host1_store ''host1'' None 1020 [(Attr ''region'', [Str ''eu''])]
       = Some (EOK, attrs', s')
   \<and> store_calls (new_calls host1_store s') =
       [(Store_custom ''host1''
           [(Attr ''region'', [Str ''eu'']),
            (SYSDB_OBJECTCLASS, [Str SYSDB_SSH_HOST_OC]),
            (SYSDB_NAME, [Str ''host1'']),
            (SYSDB_LAST_UPDATE, [Time 1020])], EOK)]
   \<and> open_txns s' = []"
proof -
  obtain ret attrs' s' where
    run: "sysdb_store_ssh_host host1_store ''host1'' None 1020 [(Attr ''region'', [Str ''eu''])]
            = Some (ret, attrs', s')"
    and shape: "store_calls (new_calls host1_store s') = []
      \<or> store_calls (new_calls host1_store s') =
          [(Store_custom ''host1''
              (attrs_append
                (attrs_append
                  (attrs_append [(Attr ''region'', [Str ''eu''])] SYSDB_OBJECTCLASS
                     (Str SYSDB_SSH_HOST_OC))
                  SYSDB_NAME (Str ''host1''))
                SYSDB_LAST_UPDATE (Time 1020)), ret)]"
    and made: "ret = EOK \<longrightarrow> store_calls (new_calls host1_store s') \<noteq> []"
    and txns: "open_txns s' = open_txns host1_store"
    using store_ssh_host_without_alias
      [of host1_store "''host1''" 1020 "[(Attr ''region'', [Str ''eu''])]"]
    by blast
  have "fst (the (sysdb_store_ssh_host host1_store ''host1'' None 1020
                    [(Attr ''region'', [Str ''eu''])])) = EOK"
    by (simp add: store_ssh_host_defs call_defs example_defs Let_def)
  with run have ok: "ret = EOK"
    by simp
  with shape made have "store_calls (new_calls host1_store s') =
      [(Store_custom ''host1''
           [(Attr ''region'', [Str ''eu'']),
            (SYSDB_OBJECTCLASS, [Str SYSDB_SSH_HOST_OC]),
            (SYSDB_NAME, [Str ''host1'']),
            (SYSDB_LAST_UPDATE, [Time 1020])], EOK)]"
    by auto
  moreover from txns have "open_txns s' = []"
    by (simp add: host1_store_def)
  ultimately show ?thesis
    using run ok by blast
qed

subsection \<open>Looking a host up by name\<close>

text \<open>
  C9. \<^verbatim>\<open>sysdb_get_ssh_host\<close> reads out of bounds exactly when its allocations
  succeed and the search of the store returns \<open>EOK\<close> with zero records: line 312 reads
  \<^verbatim>\<open>hosts[0]\<close> without a test for \<^verbatim>\<open>num_hosts = 0\<close>. When every successful search
  yields at least one record (the store reports no match by \<open>ENOENT\<close>), the read is
  always in bounds.
\<close>

theorem get_ssh_host_out_of_bounds_iff:
  "(sysdb_get_ssh_host s name attrs = None \<longleftrightarrow>
     (case talloc_new s of (tmp_ctx, s1) \<Rightarrow>
      case talloc_asprintf s1 of (filter_str, s2) \<Rightarrow>
      case talloc_new s2 of (tmp_ctx', s3) \<Rightarrow>
      case sysdb_search_custom s3 (Filter_eq SYSDB_NAME name) attrs of
        (ret, results, s4) \<Rightarrow>
          tmp_ctx \<and> filter_str \<and> tmp_ctx' \<and> ret = EOK \<and> results = []))
   \<and> (\<not> search_empty_ok s \<longrightarrow> sysdb_get_ssh_host s name attrs \<noteq> None)"
  by (auto simp: sysdb_get_ssh_host_def sysdb_search_ssh_hosts_def call_defs Let_def
      split: list.splits if_splits)

theorem get_ssh_host_out_of_bounds_iff_witness:
  "\<not> search_empty_ok host1_store
   \<and> sysdb_get_ssh_host host1_store ''host2'' None \<noteq> None
   \<and> sysdb_get_ssh_host (host1_store\<lparr>search_empty_ok := True\<rparr>) ''host2'' None = None"
proof -
  have flag: "\<not> search_empty_ok host1_store"
    by (simp add: host1_store_def)
  with get_ssh_host_out_of_bounds_iff [of host1_store "''host2''" None]
  have "sysdb_get_ssh_host host1_store ''host2'' None \<noteq> None"
    by blast
  moreover
  have "sysdb_get_ssh_host (host1_store\<lparr>search_empty_ok := True\<rparr>) ''host2'' None = None"
    using get_ssh_host_out_of_bounds_iff
      [of "host1_store\<lparr>search_empty_ok := True\<rparr>" "''host2''" None]
    by (simp add: call_defs example_defs Let_def)
  ultimately show ?thesis
    using flag by blast
qed

subsection \<open>Listing the hosts that have not expired\<close>

text \<open>
  C4 as stated fails: with one entry whose expiry time 1310 is before 1400, the search
  for expiry times from 1400 on matches nothing and \<^verbatim>\<open>sysdb_get_ssh_known_hosts\<close>
  returns \<open>ENOENT\<close>, not \<open>EOK\<close>; the out-parameters are set to the empty sequence.
\<close>

theorem get_ssh_known_hosts_nothing_live_counterexample:
  "search_entries (entries host1_store) (Filter_ge SYSDB_SSH_KNOWN_HOSTS_EXPIRE 1400) None = []
   \<and> fst (sysdb_get_ssh_known_hosts host1_store 1400 None) \<noteq> EOK
   \<and> fst (sysdb_get_ssh_known_hosts host1_store 1400 None) = ENOENT
   \<and> fst (snd (sysdb_get_ssh_known_hosts host1_store 1400 None)) = Some []"
  by (simp add: sysdb_get_ssh_known_hosts_def sysdb_search_ssh_hosts_def call_defs
      example_defs Let_def)

text \<open>
  C4, amended. When no entry has an expiry time greater than or equal to \<open>now\<close> and no
  call is made to fail, \<^verbatim>\<open>sysdb_get_ssh_known_hosts\<close> assigns the empty sequence to its
  out-parameters and returns the code the store's search gave for the empty result:
  \<open>ENOENT\<close>, which \<^verbatim>\<open>sysdb_search_ssh_hosts\<close> passes on after setting the
  out-parameters, and \<open>EOK\<close> only in a store whose search succeeds with zero records.
\<close>

theorem get_ssh_known_hosts_nothing_live:
  assumes "search_entries (entries s) (Filter_ge SYSDB_SSH_KNOWN_HOSTS_EXPIRE now) attrs = []"
    and "\<And>h e. faults s h e = EOK"
    and "sysdb_get_ssh_known_hosts s now attrs = (ret, hosts, s')"
  shows "hosts = Some [] \<and> ret = (if search_empty_ok s then EOK else ENOENT)"
  using assms
  by (auto simp: sysdb_get_ssh_known_hosts_def sysdb_search_ssh_hosts_def call_defs Let_def
      reply_def split: if_splits)

theorem get_ssh_known_hosts_nothing_live_witness:
  "search_entries (entries host1_store) (Filter_ge SYSDB_SSH_KNOWN_HOSTS_EXPIRE 1400) None = []
   \<and> fst (snd (sysdb_get_ssh_known_hosts host1_store 1400 None)) = Some []
   \<and> fst (sysdb_get_ssh_known_hosts host1_store 1400 None) = ENOENT"
proof -
  have none_live:
    "search_entries (entries host1_store) (Filter_ge SYSDB_SSH_KNOWN_HOSTS_EXPIRE 1400) None
       = []"
    by (simp add: example_defs)
  have quiet: "\<And>h e. faults host1_store h e = EOK"
    by (simp add: host1_store_def)
  have flag: "\<not> search_empty_ok host1_store"
    by (simp add: host1_store_def)
  have run: "sysdb_get_ssh_known_hosts host1_store 1400 None =
      (fst (sysdb_get_ssh_known_hosts host1_store 1400 None),
       fst (snd (sysdb_get_ssh_known_hosts host1_store 1400 None)),
       snd (snd (sysdb_get_ssh_known_hosts host1_store 1400 None)))"
    by simp
  have "fst (snd (sysdb_get_ssh_known_hosts host1_store 1400 None)) = Some []
      \<and> fst (sysdb_get_ssh_known_hosts host1_store 1400 None)
          = (if search_empty_ok host1_store then EOK else ENOENT)"
    by (rule get_ssh_known_hosts_nothing_live [where s = host1_store]) (fact none_live quiet run)+
  with flag none_live show ?thesis
    by simp
qed

subsection \<open>The effect of each call, whatever the oracle answers\<close>

lemma alloc_effect:
  assumes "alloc e s = (ok, s')"
  shows "\<exists>r. (ok \<longleftrightarrow> r = EOK) \<and> calls s' = calls s @ [(e, r)]
           \<and> entries s' = entries s \<and> open_txns s' = open_txns s
           \<and> faults s' = faults s"
  using assms by (auto simp: alloc_def Let_def)

lemmas talloc_new_effect = alloc_effect [of Talloc_new, folded talloc_new_def]
lemmas talloc_asprintf_effect = alloc_effect [of Talloc_asprintf, folded talloc_asprintf_def]

lemma attrs_add_val_effect:
  assumes "sysdb_attrs_add_val s attrs a v = (ret, attrs', s')"
  shows "calls s' = calls s @ [(Attrs_add a v, ret)]
       \<and> attrs' = (if ret = EOK then attrs_append attrs a v else attrs)
       \<and> entries s' = entries s \<and> open_txns s' = open_txns s
       \<and> faults s' = faults s"
  using assms by (auto simp: sysdb_attrs_add_val_def Let_def)

lemmas attrs_add_string_effect =
  attrs_add_val_effect [of _ _ _ "Str str" for str, folded sysdb_attrs_add_string_def]
lemmas attrs_add_time_t_effect =
  attrs_add_val_effect [of _ _ _ "Time t" for t, folded sysdb_attrs_add_time_t_def]

lemma transaction_start_effect:
  assumes "sysdb_transaction_start s = (ret, s')"
  shows "calls s' = calls s @ [(Transaction_start, ret)]
       \<and> entries s' = entries s
       \<and> open_txns s' = (if ret = EOK then entries s # open_txns s else open_txns s)
       \<and> faults s' = faults s"
  using assms by (auto simp: sysdb_transaction_start_def Let_def split: if_splits)

lemma transaction_commit_effect:
  assumes "sysdb_transaction_commit s = (ret, s')"
  shows "calls s' = calls s @ [(Transaction_commit, ret)]
       \<and> entries s' = entries s
       \<and> open_txns s' = (if ret = EOK then tl (open_txns s) else open_txns s)
       \<and> faults s' = faults s"
  using assms by (auto simp: sysdb_transaction_commit_def Let_def split: if_splits list.splits)

lemma transaction_cancel_effect:
  assumes "sysdb_transaction_cancel s = (ret, s')"
  shows "calls s' = calls s @ [(Transaction_cancel, ret)]
       \<and> entries s' = (if ret = EOK then hd (open_txns s) else entries s)
       \<and> open_txns s' = (if ret = EOK then tl (open_txns s) else open_txns s)
       \<and> faults s' = faults s"
  using assms by (auto simp: sysdb_transaction_cancel_def Let_def split: if_splits list.splits)

lemma store_custom_effect:
  assumes "sysdb_store_custom s name attrs = (ret, s')"
  shows "calls s' = calls s @ [(Store_custom name attrs, ret)]
       \<and> entries s' = (if ret = EOK then store_merge (entries s) name attrs else entries s)
       \<and> open_txns s' = open_txns s
       \<and> faults s' = faults s"
  using assms by (auto simp: sysdb_store_custom_def Let_def split: if_splits)

lemma search_custom_effect:
  assumes "sysdb_search_custom s f attrs = (ret, results, s')"
  shows "calls s' = calls s @ [(Search_custom f attrs, ret)]
       \<and> entries s' = entries s \<and> open_txns s' = open_txns s
       \<and> faults s' = faults s
       \<and> (if ret = EOK
           then results = search_entries (entries s) f attrs
           else results = [])
       \<and> (ret = ENOENT \<longrightarrow>
             reply s (Search_custom f attrs) = ENOENT
             \<or> search_entries (entries s) f attrs = [])"
  using assms by (auto simp: sysdb_search_custom_def Let_def split: if_splits)

lemma update_ssh_host_effect:
  assumes "sysdb_update_ssh_host s name attrs = (ret, s')"
  shows "(\<exists>r. r \<noteq> EOK \<and> ret = ENOMEM \<and> calls s' = calls s @ [(Talloc_new, r)]
              \<and> entries s' = entries s
          \<or> calls s' = calls s @ [(Talloc_new, EOK), (Store_custom name attrs, ret)]
              \<and> entries s' = (if ret = EOK then store_merge (entries s) name attrs
                               else entries s))
       \<and> open_txns s' = open_txns s
       \<and> faults s' = faults s"
  using assms
  by (auto simp: sysdb_update_ssh_host_def split: prod.splits if_splits
      dest!: talloc_new_effect store_custom_effect)



lemma apply_adds_append [simp]:
  "apply_adds attrs (xs @ ys) = apply_adds (apply_adds attrs xs) ys"
  by (induction attrs xs rule: apply_adds.induct) simp_all

lemma store_calls_simps [simp]:
  "store_calls [] = []"
  "store_calls (xs @ ys) = store_calls xs @ store_calls ys"
  "store_calls (c # cs) = (if is_store_call (fst c) then c # store_calls cs else store_calls cs)"
  by (simp_all add: store_calls_def)

lemma copied_simps [simp]:
  "copied attrs [] = attrs"
  "copied attrs (v # vs) = copied (attrs_append attrs SYSDB_NAME_ALIAS v) vs"
  by (simp_all add: copied_def)

lemma copy_aliases_effect:
  assumes "copy_aliases s attrs alias new_alias vs = (ret, new_alias', attrs', s')"
  shows "\<exists>evs. calls s' = calls s @ evs \<and> store_calls evs = []
           \<and> attrs' = apply_adds attrs evs
           \<and> entries s' = entries s \<and> open_txns s' = open_txns s
           \<and> faults s' = faults s
           \<and> (ret = EOK \<longrightarrow> attrs' = copied attrs vs
                 \<and> new_alias' = (new_alias \<and> \<not> alias_found alias vs))"
  using assms
proof (induction vs arbitrary: s attrs new_alias)
  case Nil
  then show ?case by simp
next
  case (Cons v vs)
  obtain r a1 s1 where add: "sysdb_attrs_add_val s attrs SYSDB_NAME_ALIAS v = (r, a1, s1)"
    by (cases "sysdb_attrs_add_val s attrs SYSDB_NAME_ALIAS v") auto
  note eff = attrs_add_val_effect [OF add]
  show ?case
  proof (cases "r = EOK")
    case False
    with Cons.prems add eff show ?thesis
      by (auto simp: Let_def)
  next
    case True
    with Cons.prems add
    have rest:
      "copy_aliases s1 a1 alias (if strcmp (val_data v) alias = 0 then False else new_alias) vs
        = (ret, new_alias', attrs', s')"
      by (simp add: Let_def)
    from Cons.IH [OF rest] obtain evs where
      "calls s' = calls s1 @ evs" "store_calls evs = []" "attrs' = apply_adds a1 evs"
      "entries s' = entries s1" "open_txns s' = open_txns s1"
      "faults s' = faults s1"
      "ret = EOK \<longrightarrow> attrs' = copied a1 vs
          \<and> new_alias' = ((if strcmp (val_data v) alias = 0 then False else new_alias)
                            \<and> \<not> alias_found alias vs)"
      by blast
    with eff True show ?thesis
      by (intro exI [of _ "(Attrs_add SYSDB_NAME_ALIAS v, EOK) # evs"]) auto
  qed
qed



lemma search_ssh_hosts_effect:
  assumes "sysdb_search_ssh_hosts s f req = (ret, hosts, s')"
  shows "\<exists>evs. calls s' = calls s @ evs \<and> (\<forall>a. apply_adds a evs = a)
           \<and> entries s' = entries s \<and> open_txns s' = open_txns s
           \<and> faults s' = faults s
           \<and> (store_calls evs = [] \<and> ret = ENOMEM \<and> hosts = None
               \<or> store_calls evs = [(Search_custom f req, ret)]
                  \<and> (if ret = EOK
                      then hosts = Some (search_entries (entries s) f req)
                      else if ret = ENOENT
                      then hosts = Some []
                           \<and> (search_entries (entries s) f req = []
                               \<or> (\<exists>h. faults s h (Search_custom f req) = ENOENT))
                      else hosts = None))"
  using assms
  by (auto simp: sysdb_search_ssh_hosts_def reply_def split: prod.splits if_splits
      dest!: talloc_new_effect search_custom_effect)

lemma get_ssh_host_effect:
  assumes "sysdb_get_ssh_host s name req = Some (ret, host, s')"
  shows "\<exists>evs. calls s' = calls s @ evs \<and> (\<forall>a. apply_adds a evs = a)
           \<and> entries s' = entries s \<and> open_txns s' = open_txns s
           \<and> faults s' = faults s
           \<and> (if ret = EOK
               then store_calls evs = [(Search_custom (Filter_eq SYSDB_NAME name) req, EOK)]
                    \<and> (\<exists>h. search_entries (entries s) (Filter_eq SYSDB_NAME name) req = [h]
                            \<and> host = Some h)
               else host = None
                    \<and> (store_calls evs = [] \<and> ret = ENOMEM
                        \<or> store_calls evs
                             = [(Search_custom (Filter_eq SYSDB_NAME name) req, ret)]
                           \<and> (ret = ENOENT \<longrightarrow>
                                search_entries (entries s) (Filter_eq SYSDB_NAME name) req = []
                                \<or> (\<exists>h. faults s h
                                           (Search_custom (Filter_eq SYSDB_NAME name) req)
                                         = ENOENT))
                        \<or> store_calls evs
                             = [(Search_custom (Filter_eq SYSDB_NAME name) req, EOK)]
                           \<and> ret = EINVAL
                           \<and> length (search_entries (entries s) (Filter_eq SYSDB_NAME name) req)
                                > 1))"
  using assms
  by (auto simp: sysdb_get_ssh_host_def split: prod.splits if_splits option.splits list.splits
      dest!: talloc_new_effect talloc_asprintf_effect search_ssh_hosts_effect)

lemma store_ssh_host_done_effect:
  assumes "store_ssh_host_done in_transaction ret attrs s = (ret', attrs', s')"
  shows "ret' = ret \<and> attrs' = attrs
       \<and> faults s' = faults s
       \<and> (if in_transaction
           then \<exists>sret. calls s' = calls s @ [(Transaction_cancel, sret)]
                  \<and> entries s' = (if sret = EOK then hd (open_txns s) else entries s)
                  \<and> open_txns s' = (if sret = EOK then tl (open_txns s) else open_txns s)
           else s' = s)"
  using assms
  by (auto simp: store_ssh_host_done_def split: prod.splits if_splits
      dest!: transaction_cancel_effect)

lemma attr_values_attrs_append:
  "attr_values (attrs_append attrs a v) b =
     (if b = a then attr_values attrs a @ [v] else attr_values attrs b)"
  by (simp add: attr_values_def find_element_attrs_append)

lemma attr_values_copied:
  "attr_values (copied attrs vs) b =
     (if b = SYSDB_NAME_ALIAS then attr_values attrs b @ vs else attr_values attrs b)"
  by (induction vs arbitrary: attrs) (simp_all add: attr_values_attrs_append)

lemma find_element_project:
  "ldb_msg_find_element (project_msg (Some as) m) a =
     (if a \<in> set as then ldb_msg_find_element m a else None)"
  by (induction m) (auto simp: project_msg_def)

lemma attr_values_found:
  "ldb_msg_find_element m a = None \<Longrightarrow> attr_values m a = []"
  "ldb_msg_find_element m a = Some vs \<Longrightarrow> attr_values m a = vs"
  by (simp_all add: attr_values_def)

lemma store_ssh_host_merge_effect:
  assumes "store_ssh_host_merge s name alias attrs = Some (ret, attrs', s')"
  shows "\<exists>evs. calls s' = calls s @ evs \<and> attrs' = apply_adds attrs evs
           \<and> entries s' = entries s \<and> open_txns s' = open_txns s
           \<and> faults s' = faults s
           \<and> (if ret = EOK
               then store_calls evs =
                       [(Search_custom (Filter_eq SYSDB_NAME name) (Some [SYSDB_NAME_ALIAS]), EOK)]
                     \<and> (\<exists>h. search_entries (entries s) (Filter_eq SYSDB_NAME name)
                                (Some [SYSDB_NAME_ALIAS]) = [h]
                            \<and> set (attr_values h SYSDB_NAME_ALIAS)
                                \<subseteq> set (attr_values attrs' SYSDB_NAME_ALIAS)
                            \<and> (alias_found alias (attr_values h SYSDB_NAME_ALIAS)
                                \<or> Str alias \<in> set (attr_values attrs' SYSDB_NAME_ALIAS)))
                     \<or> store_calls evs =
                       [(Search_custom (Filter_eq SYSDB_NAME name) (Some [SYSDB_NAME_ALIAS]),
                         ENOENT)]
                     \<and> Str alias \<in> set (attr_values attrs' SYSDB_NAME_ALIAS)
                     \<and> (search_entries (entries s) (Filter_eq SYSDB_NAME name)
                                (Some [SYSDB_NAME_ALIAS]) = []
                        \<or> (\<exists>h. faults s h (Search_custom (Filter_eq SYSDB_NAME name)
                                               (Some [SYSDB_NAME_ALIAS])) = ENOENT))
               else store_calls evs = [] \<and> ret = ENOMEM
                    \<or> store_calls evs =
                        [(Search_custom (Filter_eq SYSDB_NAME name) (Some [SYSDB_NAME_ALIAS]),
                          ret)]
                    \<or> store_calls evs =
                        [(Search_custom (Filter_eq SYSDB_NAME name) (Some [SYSDB_NAME_ALIAS]),
                          ENOENT)]
                    \<or> store_calls evs =
                        [(Search_custom (Filter_eq SYSDB_NAME name) (Some [SYSDB_NAME_ALIAS]),
                          EOK)]
                       \<and> (length (search_entries (entries s) (Filter_eq SYSDB_NAME name)
                                    (Some [SYSDB_NAME_ALIAS])) > 1 \<longrightarrow> ret = EINVAL))"
  using assms
  by (auto simp: store_ssh_host_merge_def attr_values_attrs_append attr_values_copied
        attr_values_found
      split: prod.splits if_splits option.splits
      dest!: get_ssh_host_effect copy_aliases_effect attrs_add_string_effect)

lemma store_ssh_host_write_effect:
  assumes "store_ssh_host_write True s name now attrs = (ret, attrs', s')"
  shows "\<exists>evs. calls s' = calls s @ evs \<and> attrs' = apply_adds attrs evs
           \<and> faults s' = faults s \<and> evs \<noteq> []
           \<and> (attrs' = attrs \<or> attrs' = attrs_append attrs SYSDB_LAST_UPDATE (Time now))
           \<and> (ret = EOK
                \<and> store_calls evs =
                     [(Store_custom name attrs', EOK), (Transaction_commit, EOK)]
                \<and> last evs = (Transaction_commit, EOK)
                \<and> entries s' = store_merge (entries s) name attrs'
                \<and> open_txns s' = tl (open_txns s)
              \<or> ret \<noteq> EOK
                \<and> (\<exists>sret. last evs = (Transaction_cancel, sret)
                     \<and> (store_calls evs = [(Transaction_cancel, sret)]
                           \<and> entries s' = (if sret = EOK then hd (open_txns s) else entries s)
                         \<or> store_calls evs =
                             [(Store_custom name attrs', ret), (Transaction_cancel, sret)]
                           \<and> entries s' = (if sret = EOK then hd (open_txns s) else entries s)
                         \<or> store_calls evs =
                             [(Store_custom name attrs', EOK), (Transaction_commit, ret),
                              (Transaction_cancel, sret)]
                           \<and> entries s' = (if sret = EOK then hd (open_txns s)
                                            else store_merge (entries s) name attrs'))
                     \<and> open_txns s' = (if sret = EOK then tl (open_txns s) else open_txns s)))"
  using assms
  by (auto simp: store_ssh_host_write_def
      split: prod.splits if_splits
      dest!: attrs_add_time_t_effect update_ssh_host_effect transaction_commit_effect
        store_ssh_host_done_effect)



subsection \<open>The calls when the oracle lets every call run\<close>

lemma reply_quiet [simp]: "faults s = (\<lambda>h e. EOK) \<Longrightarrow> reply s e = EOK"
  by (simp add: reply_def)

lemma alloc_quiet:
  "faults s = (\<lambda>h e. EOK) \<Longrightarrow> talloc_new s = (True, logged Talloc_new EOK s)"
  "faults s = (\<lambda>h e. EOK) \<Longrightarrow> talloc_asprintf s = (True, logged Talloc_asprintf EOK s)"
  by (simp_all add: talloc_new_def talloc_asprintf_def alloc_def)

lemma attrs_add_quiet:
  "faults s = (\<lambda>h e. EOK) \<Longrightarrow>
     sysdb_attrs_add_val s attrs a v = (EOK, attrs_append attrs a v, logged (Attrs_add a v) EOK s)"
  "faults s = (\<lambda>h e. EOK) \<Longrightarrow>
     sysdb_attrs_add_string s attrs a str =
       (EOK, attrs_append attrs a (Str str), logged (Attrs_add a (Str str)) EOK s)"
  "faults s = (\<lambda>h e. EOK) \<Longrightarrow>
     sysdb_attrs_add_time_t s attrs a t =
       (EOK, attrs_append attrs a (Time t), logged (Attrs_add a (Time t)) EOK s)"
  by (simp_all add: sysdb_attrs_add_val_def sysdb_attrs_add_string_def sysdb_attrs_add_time_t_def)

lemma copy_logged_fields [simp]:
  "entries (copy_logged s vs) = entries s"
  "open_txns (copy_logged s vs) = open_txns s"
  "search_empty_ok (copy_logged s vs) = search_empty_ok s"
  "faults (copy_logged s vs) = faults s"
  "calls (copy_logged s vs) = calls s @ map (\<lambda>v. (Attrs_add SYSDB_NAME_ALIAS v, EOK)) vs"
  by (induction vs arbitrary: s) (simp_all add: copy_logged_def)

lemma copy_aliases_quiet:
  "faults s = (\<lambda>h e. EOK) \<Longrightarrow>
     copy_aliases s attrs alias new_alias vs =
       (EOK, new_alias \<and> \<not> alias_found alias vs, copied attrs vs, copy_logged s vs)"
  by (induction vs arbitrary: s attrs new_alias)
     (auto simp: copied_def copy_logged_def attrs_add_quiet)

lemma find_element_copied:
  "ldb_msg_find_element (copied attrs vs) b =
     (if b = SYSDB_NAME_ALIAS \<and> vs \<noteq> [] then Some (attr_values attrs b @ vs)
      else ldb_msg_find_element attrs b)"
  by (induction vs arbitrary: attrs)
     (auto simp: copied_def find_element_attrs_append attr_values_attrs_append)

lemma search_entries_project:
  "search_entries es f req = map (project_msg req) (search_entries es f None)"
  by (simp add: search_entries_def project_msg_def)

lemma get_ssh_host_quiet:
  assumes "faults s = (\<lambda>h e. EOK)"
  shows "sysdb_get_ssh_host s name req =
    (let found = search_entries (entries s) (Filter_eq SYSDB_NAME name) req;
         s3 = logged Talloc_new EOK (logged Talloc_asprintf EOK (logged Talloc_new EOK s))
     in case found of
          [] \<Rightarrow> if search_empty_ok s then None
                else Some (ENOENT, None, logged (Search_custom (Filter_eq SYSDB_NAME name) req) ENOENT s3)
        | [h] \<Rightarrow> Some (EOK, Some h, logged (Search_custom (Filter_eq SYSDB_NAME name) req) EOK s3)
        | h # h' # hs \<Rightarrow>
            Some (EINVAL, None, logged (Search_custom (Filter_eq SYSDB_NAME name) req) EOK s3))"
  using assms
  by (simp add: sysdb_get_ssh_host_def sysdb_search_ssh_hosts_def sysdb_search_custom_def
      alloc_quiet Let_def split: list.splits)

lemma transaction_quiet:
  "faults s = (\<lambda>h e. EOK) \<Longrightarrow>
     sysdb_transaction_start s =
       (EOK, logged Transaction_start EOK (s\<lparr>open_txns := entries s # open_txns s\<rparr>))"
  "faults s = (\<lambda>h e. EOK) \<Longrightarrow> open_txns s = saved # outer \<Longrightarrow>
     sysdb_transaction_commit s =
       (EOK, logged Transaction_commit EOK (s\<lparr>open_txns := outer\<rparr>))"
  "faults s = (\<lambda>h e. EOK) \<Longrightarrow> open_txns s = saved # outer \<Longrightarrow>
     sysdb_transaction_cancel s =
       (EOK, logged Transaction_cancel EOK (s\<lparr>entries := saved, open_txns := outer\<rparr>))"
  by (simp_all add: sysdb_transaction_start_def sysdb_transaction_commit_def
      sysdb_transaction_cancel_def)

lemma store_custom_quiet:
  "faults s = (\<lambda>h e. EOK) \<Longrightarrow>
     sysdb_store_custom s name attrs =
       (EOK, logged (Store_custom name attrs) EOK
               (s\<lparr>entries := store_merge (entries s) name attrs\<rparr>))"
  by (simp add: sysdb_store_custom_def)

lemmas quiet_simps =
  alloc_quiet attrs_add_quiet copy_aliases_quiet transaction_quiet store_custom_quiet
  get_ssh_host_quiet

lemma project_msg_None [simp]: "project_msg None m = m"
  by (simp add: project_msg_def)

lemma stored_after_write:
  "stored (store_merge es name attrs) name a =
     (case ldb_msg_find_element attrs a of None \<Rightarrow> stored es name a | Some vs \<Rightarrow> Some vs)"
proof (cases "ldb_msg_find_element attrs a")
  case None
  then have "a \<notin> fst ` set attrs"
    by (simp add: find_element_None_iff)
  with None show ?thesis
    by (simp add: stored_store_merge)
next
  case (Some vs)
  then have "a \<in> fst ` set attrs"
    using find_element_notin [of a attrs] by force
  with Some show ?thesis
    by (simp add: stored_store_merge)
qed

lemma find_element_merged_bag:
  "ldb_msg_find_element (merged_bag attrs name old alias now) a =
     (if a = SYSDB_OBJECTCLASS then Some (attr_values attrs a @ [Str SYSDB_SSH_HOST_OC])
      else if a = SYSDB_NAME then Some (attr_values attrs a @ [Str name])
      else if a = SYSDB_NAME_ALIAS
      then Some (attr_values attrs a @ old @ (if alias_found alias old then [] else [Str alias]))
      else if a = SYSDB_LAST_UPDATE then Some (attr_values attrs a @ [Time now])
      else ldb_msg_find_element attrs a)"
  by (auto simp: merged_bag_def find_element_attrs_append find_element_copied
      attr_values_attrs_append attr_values_copied)

subsection \<open>Storing a host with an alias when every call succeeds\<close>

lemma store_ssh_host_quiet:
  assumes quiet: "faults s = (\<lambda>h e. EOK)"
    and unique: "length (search_entries (entries s) (Filter_eq SYSDB_NAME name) None) \<le> 1"
    and conv: "search_entries (entries s) (Filter_eq SYSDB_NAME name) None = []
                 \<longrightarrow> \<not> search_empty_ok s"
  shows "\<exists>s'. sysdb_store_ssh_host s name (Some alias) now attrs =
                Some (EOK, merged_bag attrs name (existing_aliases s name) alias now, s')
            \<and> entries s' =
                store_merge (entries s) name
                  (merged_bag attrs name (existing_aliases s name) alias now)
            \<and> open_txns s' = open_txns s"
proof (cases "search_entries (entries s) (Filter_eq SYSDB_NAME name) None")
  case Nil
  then have found: "\<And>req. search_entries (entries s) (Filter_eq SYSDB_NAME name) req = []"
    by (subst search_entries_project) simp
  from Nil conv have "\<not> search_empty_ok s"
    by simp
  with quiet show ?thesis
    by (simp add: sysdb_store_ssh_host_def store_ssh_host_merge_def store_ssh_host_done_def
        store_ssh_host_write_def sysdb_update_ssh_host_def
        quiet_simps found existing_aliases_def Nil merged_bag_def)
next
  case (Cons h hs)
  with unique have hs: "hs = []"
    by simp
  have found: "\<And>req. search_entries (entries s) (Filter_eq SYSDB_NAME name) req
      = [project_msg req h]"
    by (subst search_entries_project) (simp add: Cons hs)
  show ?thesis
  proof (cases "ldb_msg_find_element h SYSDB_NAME_ALIAS")
    case None
    with quiet show ?thesis
      by (simp add: sysdb_store_ssh_host_def store_ssh_host_merge_def store_ssh_host_done_def
          store_ssh_host_write_def sysdb_update_ssh_host_def
          quiet_simps found existing_aliases_def Cons find_element_project
          attr_values_found merged_bag_def)
  next
    case (Some vs)
    with quiet show ?thesis
      by (simp add: sysdb_store_ssh_host_def store_ssh_host_merge_def store_ssh_host_done_def
          store_ssh_host_write_def sysdb_update_ssh_host_def
          quiet_simps found existing_aliases_def Cons find_element_project
          attr_values_found merged_bag_def)
  qed
qed

text \<open>
  C1 as stated fails when the caller's bag already carries an alias value: a first call
  for \<open>host1\<close> with the alias \<open>h1.example.com\<close> and a bag that holds the alias
  \<open>old.example.com\<close> succeeds and stores both, although no entry existed.
\<close>

theorem store_ssh_host_merged_aliases_counterexample:
  "existing_aliases empty_store ''host1'' = []
   \<and> fst (the (sysdb_store_ssh_host empty_store ''host1'' (Some ''h1.example.com'') 1000
                 [(SYSDB_NAME_ALIAS, [Str ''old.example.com''])])) = EOK
   \<and> stored_set
        (entries (snd (snd (the (sysdb_store_ssh_host empty_store ''host1''
                                  (Some ''h1.example.com'') 1000
                                  [(SYSDB_NAME_ALIAS, [Str ''old.example.com''])])))))
        ''host1'' SYSDB_NAME_ALIAS
       = {Str ''old.example.com'', Str ''h1.example.com''}
   \<and> Str ''old.example.com''
        \<notin> set (existing_aliases empty_store ''host1'') \<union> {Str ''h1.example.com''}"
  by (simp add: sysdb_store_ssh_host_def store_ssh_host_merge_def store_ssh_host_write_def
      store_ssh_host_done_def sysdb_update_ssh_host_def sysdb_get_ssh_host_def
      sysdb_search_ssh_hosts_def call_defs example_defs existing_aliases_def stored_set_def
      Let_def)

text \<open>
  C1, amended. When no call is made to fail and at most one entry carries the name
  (none being reported by \<open>ENOENT\<close>), \<^verbatim>\<open>sysdb_store_ssh_host\<close> with an alias returns
  \<open>EOK\<close> and the entry stored under the name has as its aliases the alias values of the
  caller's bag, then the aliases \<open>A\<close> that existed for the name, then the alias unless
  the test of line 113 found it in \<open>A\<close>. When the aliases in \<open>A\<close> are texts and the
  alias has no NUL byte, the stored set is \<open>A \<union> {alias}\<close> together with the aliases of
  the caller's bag, and so exactly \<open>A \<union> {alias}\<close> for a bag that carries none, which
  is \<open>A\<close> when the alias is in \<open>A\<close>. The entry carries the update time \<open>now\<close> and the
  object-class marker as the last values of their attributes, and no transaction is left
  open.
\<close>

theorem store_ssh_host_merged_aliases:
  assumes quiet: "faults s = (\<lambda>h e. EOK)"
    and unique: "length (search_entries (entries s) (Filter_eq SYSDB_NAME name) None) \<le> 1"
    and conv: "search_entries (entries s) (Filter_eq SYSDB_NAME name) None = []
                 \<longrightarrow> \<not> search_empty_ok s"
  shows "\<exists>attrs' s'.
           sysdb_store_ssh_host s name (Some alias) now attrs = Some (EOK, attrs', s')
         \<and> stored (entries s') name SYSDB_NAME_ALIAS =
             Some (attr_values attrs SYSDB_NAME_ALIAS @ existing_aliases s name
                   @ (if alias_found alias (existing_aliases s name) then [] else [Str alias]))
         \<and> stored_set (entries s') name SYSDB_NAME_ALIAS =
             set (attr_values attrs SYSDB_NAME_ALIAS) \<union> set (existing_aliases s name)
               \<union> (if alias_found alias (existing_aliases s name) then {} else {Str alias})
         \<and> (list_all is_text (existing_aliases s name) \<and> is_c_string alias \<longrightarrow>
              stored_set (entries s') name SYSDB_NAME_ALIAS =
                set (attr_values attrs SYSDB_NAME_ALIAS)
                  \<union> set (existing_aliases s name) \<union> {Str alias})
         \<and> stored (entries s') name SYSDB_LAST_UPDATE =
             Some (attr_values attrs SYSDB_LAST_UPDATE @ [Time now])
         \<and> stored (entries s') name SYSDB_OBJECTCLASS =
             Some (attr_values attrs SYSDB_OBJECTCLASS @ [Str SYSDB_SSH_HOST_OC])
         \<and> open_txns s' = open_txns s"
proof -
  from store_ssh_host_quiet [OF assms, of "alias" now attrs] obtain s' where
    run: "sysdb_store_ssh_host s name (Some alias) now attrs =
            Some (EOK, merged_bag attrs name (existing_aliases s name) alias now, s')"
    and written: "entries s' =
            store_merge (entries s) name
              (merged_bag attrs name (existing_aliases s name) alias now)"
    and txns: "open_txns s' = open_txns s"
    by blast
  from written have vals:
    "stored (entries s') name SYSDB_NAME_ALIAS =
       Some (attr_values attrs SYSDB_NAME_ALIAS @ existing_aliases s name
             @ (if alias_found alias (existing_aliases s name) then [] else [Str alias]))"
    "stored (entries s') name SYSDB_LAST_UPDATE =
       Some (attr_values attrs SYSDB_LAST_UPDATE @ [Time now])"
    "stored (entries s') name SYSDB_OBJECTCLASS =
       Some (attr_values attrs SYSDB_OBJECTCLASS @ [Str SYSDB_SSH_HOST_OC])"
    by (simp_all add: stored_after_write find_element_merged_bag)
  from vals(1) have as_set:
    "stored_set (entries s') name SYSDB_NAME_ALIAS =
       set (attr_values attrs SYSDB_NAME_ALIAS) \<union> set (existing_aliases s name)
         \<union> (if alias_found alias (existing_aliases s name) then {} else {Str alias})"
    by (simp add: stored_set_def)
  have texts:
    "list_all is_text (existing_aliases s name) \<and> is_c_string alias \<longrightarrow>
       stored_set (entries s') name SYSDB_NAME_ALIAS =
         set (attr_values attrs SYSDB_NAME_ALIAS)
           \<union> set (existing_aliases s name) \<union> {Str alias}"
  proof (intro impI, elim conjE)
    assume "list_all is_text (existing_aliases s name)" and "is_c_string alias"
    then have "alias_found alias (existing_aliases s name)
        \<longleftrightarrow> Str alias \<in> set (existing_aliases s name)"
      by (rule alias_found_text)
    with as_set show "stored_set (entries s') name SYSDB_NAME_ALIAS =
         set (attr_values attrs SYSDB_NAME_ALIAS)
           \<union> set (existing_aliases s name) \<union> {Str alias}"
      by auto
  qed
  from run vals as_set texts txns show ?thesis
    by blast
qed

theorem store_ssh_host_merged_aliases_witness:
  "faults host1_store = (\<lambda>h e. EOK)
   \<and> length (search_entries (entries host1_store) (Filter_eq SYSDB_NAME ''host1'') None) \<le> 1
   \<and> \<not> search_empty_ok host1_store
   \<and> existing_aliases host1_store ''host1'' = [Str ''h1.example.com'']
   \<and> (\<exists>attrs' s'.
         sysdb_store_ssh_host host1_store ''host1'' (Some ''h1-alt.example.com'') 1010
           [(Attr ''region'', [Str ''us''])] = Some (EOK, attrs', s')
       \<and> stored_set (entries s') ''host1'' SYSDB_NAME_ALIAS =
           {Str ''h1.example.com'', Str ''h1-alt.example.com''}
       \<and> stored (entries s') ''host1'' SYSDB_LAST_UPDATE = Some [Time 1010])
   \<and> existing_aliases nul_alias_store ''host1'' = [Str [CHR ''h'', CHR ''1'', CHR 0x00, CHR ''x'']]
   \<and> (\<exists>attrs' s'.
         sysdb_store_ssh_host nul_alias_store ''host1'' (Some ''h1'') 1010 []
           = Some (EOK, attrs', s')
       \<and> stored (entries s') ''host1'' SYSDB_NAME_ALIAS =
           Some [Str [CHR ''h'', CHR ''1'', CHR 0x00, CHR ''x'']])"
proof -
  have quiet: "faults host1_store = (\<lambda>h e. EOK)"
    and unique:
      "length (search_entries (entries host1_store) (Filter_eq SYSDB_NAME ''host1'') None) \<le> 1"
    and conv:
      "search_entries (entries host1_store) (Filter_eq SYSDB_NAME ''host1'') None = []
         \<longrightarrow> \<not> search_empty_ok host1_store"
    and flag: "\<not> search_empty_ok host1_store"
    and old: "existing_aliases host1_store ''host1'' = [Str ''h1.example.com'']"
    by (simp_all add: example_defs existing_aliases_def)
  have texts: "list_all is_text [Str ''h1.example.com'']" "is_c_string ''h1-alt.example.com''"
    by (simp_all add: is_c_string_def)
  have bag: "attr_values [(Attr ''region'', [Str ''us''])] SYSDB_NAME_ALIAS = []"
    "attr_values [(Attr ''region'', [Str ''us''])] SYSDB_LAST_UPDATE = []"
    by (simp_all add: attr_values_def)
  from store_ssh_host_merged_aliases
    [OF quiet unique conv, of "''h1-alt.example.com''" 1010 "[(Attr ''region'', [Str ''us''])]"]
  have first: "\<exists>attrs' s'.
         sysdb_store_ssh_host host1_store ''host1'' (Some ''h1-alt.example.com'') 1010
           [(Attr ''region'', [Str ''us''])] = Some (EOK, attrs', s')
       \<and> stored_set (entries s') ''host1'' SYSDB_NAME_ALIAS =
           {Str ''h1.example.com'', Str ''h1-alt.example.com''}
       \<and> stored (entries s') ''host1'' SYSDB_LAST_UPDATE = Some [Time 1010]"
    using texts by (auto simp: old bag)
  have nquiet: "faults nul_alias_store = (\<lambda>h e. EOK)"
    and nunique:
      "length (search_entries (entries nul_alias_store) (Filter_eq SYSDB_NAME ''host1'') None)
         \<le> 1"
    and nconv:
      "search_entries (entries nul_alias_store) (Filter_eq SYSDB_NAME ''host1'') None = []
         \<longrightarrow> \<not> search_empty_ok nul_alias_store"
    and nold: "existing_aliases nul_alias_store ''host1''
         = [Str [CHR ''h'', CHR ''1'', CHR 0x00, CHR ''x'']]"
    by (simp_all add: nul_alias_store_def example_defs existing_aliases_def)
  have nbag: "attr_values [] SYSDB_NAME_ALIAS = []"
    by (simp add: attr_values_def)
  from store_ssh_host_merged_aliases [OF nquiet nunique nconv, of "''h1''" 1010 "[]"]
  have second: "\<exists>attrs' s'.
         sysdb_store_ssh_host nul_alias_store ''host1'' (Some ''h1'') 1010 []
           = Some (EOK, attrs', s')
       \<and> stored (entries s') ''host1'' SYSDB_NAME_ALIAS =
           Some [Str [CHR ''h'', CHR ''1'', CHR 0x00, CHR ''x'']]"
    by (auto simp: nold nbag)
  from quiet unique flag old first nold second show ?thesis
    by blast
qed

subsection \<open>Storing a host with an alias, whatever the oracle answers\<close>

lemmas store_ssh_host_effects =
  talloc_new_effect attrs_add_string_effect transaction_start_effect
  store_ssh_host_merge_effect store_ssh_host_write_effect store_ssh_host_done_effect

lemmas run_defs =
  sysdb_store_ssh_host_def store_ssh_host_merge_def store_ssh_host_write_def
  store_ssh_host_done_def sysdb_update_ssh_host_def sysdb_get_ssh_host_def
  sysdb_search_ssh_hosts_def call_defs example_defs commit_fails_def write_fails_def
  host1_commit_fails_def host1_write_fails_def Let_def






subsection \<open>A name that more than one entry carries\<close>

lemma length_search_entries:
  "length (search_entries es f req) = length (search_entries es f None)"
  by (simp add: search_entries_def)

lemma get_ssh_host_ambiguous_any:
  assumes "sysdb_get_ssh_host s name req = Some (ret, host, s')"
    and "(Search_custom (Filter_eq SYSDB_NAME name) req, EOK)
           \<in> set (store_calls (new_calls s s'))"
    and "length (search_entries (entries s) (Filter_eq SYSDB_NAME name) req) > 1"
  shows "ret = EINVAL \<and> host = None
       \<and> store_calls (new_calls s s') =
           [(Search_custom (Filter_eq SYSDB_NAME name) req, EOK)]"
  using assms
  by (auto simp: new_calls_def dest!: get_ssh_host_effect split: if_split_asm)

lemma store_ssh_host_ambiguous_any:
  assumes "sysdb_store_ssh_host s name (Some alias) now attrs = Some (ret, attrs', s')"
    and "(Search_custom (Filter_eq SYSDB_NAME name) (Some [SYSDB_NAME_ALIAS]), EOK)
           \<in> set (store_calls (new_calls s s'))"
    and "length (search_entries (entries s) (Filter_eq SYSDB_NAME name)
                   (Some [SYSDB_NAME_ALIAS])) > 1"
  shows "ret = EINVAL
       \<and> store_calls (new_calls s s') =
           [(Transaction_start, EOK),
            (Search_custom (Filter_eq SYSDB_NAME name) (Some [SYSDB_NAME_ALIAS]), EOK),
            last (new_calls s s')]
       \<and> fst (last (new_calls s s')) = Transaction_cancel
       \<and> (snd (last (new_calls s s')) = EOK \<longrightarrow>
             open_txns s' = open_txns s \<and> entries s' = entries s)"
  using assms
  by (auto simp: sysdb_store_ssh_host_def new_calls_def
      split: prod.splits if_split_asm option.splits
      dest!: store_ssh_host_effects)

lemma ambiguous_quiet:
  assumes quiet: "faults s = (\<lambda>h e. EOK)"
    and many: "length (search_entries (entries s) (Filter_eq SYSDB_NAME name) None) > 1"
  shows "(\<exists>attrs' s'.
            sysdb_store_ssh_host s name (Some alias) now attrs = Some (EINVAL, attrs', s')
          \<and> store_calls (new_calls s s') =
               [(Transaction_start, EOK),
                (Search_custom (Filter_eq SYSDB_NAME name) (Some [SYSDB_NAME_ALIAS]), EOK),
                (Transaction_cancel, EOK)]
          \<and> open_txns s' = open_txns s \<and> entries s' = entries s)
       \<and> (\<exists>s'. sysdb_get_ssh_host s name req = Some (EINVAL, None, s')
          \<and> store_calls (new_calls s s') =
               [(Search_custom (Filter_eq SYSDB_NAME name) req, EOK)]
          \<and> open_txns s' = open_txns s \<and> entries s' = entries s)"
proof -
  from many obtain h h' hs where
    found: "search_entries (entries s) (Filter_eq SYSDB_NAME name) None = h # h' # hs"
    by (cases "search_entries (entries s) (Filter_eq SYSDB_NAME name) None" rule: list.exhaust;
        simp; rename_tac x xs; case_tac xs; simp)
  have found': "\<And>req. search_entries (entries s) (Filter_eq SYSDB_NAME name) req
      = project_msg req h # project_msg req h' # map (project_msg req) hs"
    by (subst search_entries_project) (simp add: found)
  show ?thesis
    using quiet
    by (simp add: sysdb_store_ssh_host_def store_ssh_host_merge_def store_ssh_host_done_def
        quiet_simps found' store_calls_def new_calls_def)
qed

lemma get_ssh_host_passes_search_code_on:
  assumes "sysdb_get_ssh_host s name req = Some (ret, host, s')"
    and "(Search_custom (Filter_eq SYSDB_NAME name) req, e)
           \<in> set (store_calls (new_calls s s'))"
    and "e \<noteq> EOK"
  shows "ret = e \<and> host = None"
  using assms
  by (auto simp: new_calls_def dest!: get_ssh_host_effect split: if_split_asm)

lemma store_ssh_host_passes_search_code_on:
  assumes "sysdb_store_ssh_host s name (Some alias) now attrs = Some (ret, attrs', s')"
    and "(Search_custom (Filter_eq SYSDB_NAME name) (Some [SYSDB_NAME_ALIAS]), e)
           \<in> set (store_calls (new_calls s s'))"
    and "e \<noteq> EOK" and "e \<noteq> ENOENT"
  shows "ret = e"
  using assms
  by (auto simp: sysdb_store_ssh_host_def new_calls_def
      split: prod.splits if_split_asm option.splits
      dest!: store_ssh_host_effects)

text \<open>
  C2 as stated fails in two places. The code \<open>EINVAL\<close> that is returned for a name
  that more than one entry carries does not set this condition apart: with one entry
  carrying the name and a search that fails with \<open>EINVAL\<close>, \<^verbatim>\<open>sysdb_get_ssh_host\<close> and
  \<^verbatim>\<open>sysdb_store_ssh_host\<close> return \<open>EINVAL\<close> as well, the code of the search passed on
  (lines 299--303 and 103--106). And when two entries carry the name and the cancel of
  the transaction fails, \<^verbatim>\<open>sysdb_store_ssh_host\<close> returns \<open>EINVAL\<close> with the
  transaction it started still open: the failure of the cancel is only logged (lines
  166--172).
\<close>

theorem store_ssh_host_ambiguous_counterexample:
  "length (search_entries (entries host1_search_fails) (Filter_eq SYSDB_NAME ''host1'') None) = 1
   \<and> (\<exists>s'. sysdb_get_ssh_host host1_search_fails ''host1'' None = Some (EINVAL, None, s'))
   \<and> (\<exists>attrs' s'.
         sysdb_store_ssh_host host1_search_fails ''host1'' (Some ''h1-alt.example.com'') 1010 []
           = Some (EINVAL, attrs', s'))
   \<and> length (search_entries (entries twice_host1_cancel_fails) (Filter_eq SYSDB_NAME ''host1'')
               None) = 2
   \<and> open_txns twice_host1_cancel_fails = []
   \<and> (\<exists>attrs' s'.
         sysdb_store_ssh_host twice_host1_cancel_fails ''host1'' (Some ''h1.example.net'') 1000 []
           = Some (EINVAL, attrs', s')
       \<and> last (new_calls twice_host1_cancel_fails s') = (Transaction_cancel, EIO)
       \<and> open_txns s' = [entries twice_host1_cancel_fails])"
  by (simp add: run_defs host1_search_fails_def search_fails_def twice_host1_cancel_fails_def
      cancel_fails_def twice_host1_store_def)

text \<open>
  C2, amended. Let more than one entry carry the name. Whatever the other calls answer,
  a run of \<^verbatim>\<open>sysdb_store_ssh_host\<close> with an alias whose search succeeded returns
  \<open>EINVAL\<close> (line 306, passed on by line 104); its calls to the store are the start of
  the transaction, the one search and, last, the cancel, and when the cancel succeeds the
  open transactions and the entries are as they were. A run of \<^verbatim>\<open>sysdb_get_ssh_host\<close>
  whose search succeeded returns \<open>EINVAL\<close> and no host, after that one search. When no
  call is made to fail, both functions do return, with these results. The code
  \<open>EINVAL\<close> is not kept for this condition: whatever the entries are, a search that
  fails with a code \<open>e\<close> makes \<^verbatim>\<open>sysdb_get_ssh_host\<close> return \<open>e\<close>, and
  \<^verbatim>\<open>sysdb_store_ssh_host\<close> too when \<open>e\<close> is not \<open>ENOENT\<close>.
\<close>

theorem store_ssh_host_ambiguous:
  "(length (search_entries (entries s) (Filter_eq SYSDB_NAME name) None) > 1 \<longrightarrow>
      (\<forall>ret attrs' s'.
          sysdb_store_ssh_host s name (Some alias) now attrs = Some (ret, attrs', s')
        \<and> (Search_custom (Filter_eq SYSDB_NAME name) (Some [SYSDB_NAME_ALIAS]), EOK)
             \<in> set (store_calls (new_calls s s'))
        \<longrightarrow> ret = EINVAL
          \<and> store_calls (new_calls s s') =
              [(Transaction_start, EOK),
               (Search_custom (Filter_eq SYSDB_NAME name) (Some [SYSDB_NAME_ALIAS]), EOK),
               last (new_calls s s')]
          \<and> fst (last (new_calls s s')) = Transaction_cancel
          \<and> (snd (last (new_calls s s')) = EOK \<longrightarrow>
                open_txns s' = open_txns s \<and> entries s' = entries s))
    \<and> (\<forall>ret host s'.
          sysdb_get_ssh_host s name req = Some (ret, host, s')
        \<and> (Search_custom (Filter_eq SYSDB_NAME name) req, EOK)
             \<in> set (store_calls (new_calls s s'))
        \<longrightarrow> ret = EINVAL \<and> host = None
          \<and> store_calls (new_calls s s') =
              [(Search_custom (Filter_eq SYSDB_NAME name) req, EOK)])
    \<and> (faults s = (\<lambda>h e. EOK) \<longrightarrow>
          (\<exists>attrs' s'.
             sysdb_store_ssh_host s name (Some alias) now attrs = Some (EINVAL, attrs', s')
           \<and> store_calls (new_calls s s') =
               [(Transaction_start, EOK),
                (Search_custom (Filter_eq SYSDB_NAME name) (Some [SYSDB_NAME_ALIAS]), EOK),
                (Transaction_cancel, EOK)]
           \<and> open_txns s' = open_txns s \<and> entries s' = entries s)
        \<and> (\<exists>s'. sysdb_get_ssh_host s name req = Some (EINVAL, None, s')
           \<and> store_calls (new_calls s s') =
               [(Search_custom (Filter_eq SYSDB_NAME name) req, EOK)]
           \<and> open_txns s' = open_txns s \<and> entries s' = entries s)))
   \<and> (\<forall>ret host s' e.
          sysdb_get_ssh_host s name req = Some (ret, host, s')
        \<and> (Search_custom (Filter_eq SYSDB_NAME name) req, e)
             \<in> set (store_calls (new_calls s s'))
        \<and> e \<noteq> EOK
        \<longrightarrow> ret = e \<and> host = None)
   \<and> (\<forall>ret attrs' s' e.
          sysdb_store_ssh_host s name (Some alias) now attrs = Some (ret, attrs', s')
        \<and> (Search_custom (Filter_eq SYSDB_NAME name) (Some [SYSDB_NAME_ALIAS]), e)
             \<in> set (store_calls (new_calls s s'))
        \<and> e \<noteq> EOK \<and> e \<noteq> ENOENT
        \<longrightarrow> ret = e)"
proof -
  have ambiguous:
    "length (search_entries (entries s) (Filter_eq SYSDB_NAME name) None) > 1 \<longrightarrow>
      (\<forall>ret attrs' s'.
          sysdb_store_ssh_host s name (Some alias) now attrs = Some (ret, attrs', s')
        \<and> (Search_custom (Filter_eq SYSDB_NAME name) (Some [SYSDB_NAME_ALIAS]), EOK)
             \<in> set (store_calls (new_calls s s'))
        \<longrightarrow> ret = EINVAL
          \<and> store_calls (new_calls s s') =
              [(Transaction_start, EOK),
               (Search_custom (Filter_eq SYSDB_NAME name) (Some [SYSDB_NAME_ALIAS]), EOK),
               last (new_calls s s')]
          \<and> fst (last (new_calls s s')) = Transaction_cancel
          \<and> (snd (last (new_calls s s')) = EOK \<longrightarrow>
                open_txns s' = open_txns s \<and> entries s' = entries s))
    \<and> (\<forall>ret host s'.
          sysdb_get_ssh_host s name req = Some (ret, host, s')
        \<and> (Search_custom (Filter_eq SYSDB_NAME name) req, EOK)
             \<in> set (store_calls (new_calls s s'))
        \<longrightarrow> ret = EINVAL \<and> host = None
          \<and> store_calls (new_calls s s') =
              [(Search_custom (Filter_eq SYSDB_NAME name) req, EOK)])
    \<and> (faults s = (\<lambda>h e. EOK) \<longrightarrow>
          (\<exists>attrs' s'.
             sysdb_store_ssh_host s name (Some alias) now attrs = Some (EINVAL, attrs', s')
           \<and> store_calls (new_calls s s') =
               [(Transaction_start, EOK),
                (Search_custom (Filter_eq SYSDB_NAME name) (Some [SYSDB_NAME_ALIAS]), EOK),
                (Transaction_cancel, EOK)]
           \<and> open_txns s' = open_txns s \<and> entries s' = entries s)
        \<and> (\<exists>s'. sysdb_get_ssh_host s name req = Some (EINVAL, None, s')
           \<and> store_calls (new_calls s s') =
               [(Search_custom (Filter_eq SYSDB_NAME name) req, EOK)]
           \<and> open_txns s' = open_txns s \<and> entries s' = entries s))"
  proof
    assume many: "length (search_entries (entries s) (Filter_eq SYSDB_NAME name) None) > 1"
    then have many_of:
      "\<And>req. length (search_entries (entries s) (Filter_eq SYSDB_NAME name) req) > 1"
      by (subst length_search_entries) simp
    have store: "\<And>ret attrs' s'.
        sysdb_store_ssh_host s name (Some alias) now attrs = Some (ret, attrs', s') \<Longrightarrow>
        (Search_custom (Filter_eq SYSDB_NAME name) (Some [SYSDB_NAME_ALIAS]), EOK)
          \<in> set (store_calls (new_calls s s')) \<Longrightarrow>
        ret = EINVAL
        \<and> store_calls (new_calls s s') =
            [(Transaction_start, EOK),
             (Search_custom (Filter_eq SYSDB_NAME name) (Some [SYSDB_NAME_ALIAS]), EOK),
             last (new_calls s s')]
        \<and> fst (last (new_calls s s')) = Transaction_cancel
        \<and> (snd (last (new_calls s s')) = EOK \<longrightarrow>
              open_txns s' = open_txns s \<and> entries s' = entries s)"
      by (rule store_ssh_host_ambiguous_any [OF _ _ many_of])
    have get: "\<And>ret host s'.
        sysdb_get_ssh_host s name req = Some (ret, host, s') \<Longrightarrow>
        (Search_custom (Filter_eq SYSDB_NAME name) req, EOK)
          \<in> set (store_calls (new_calls s s')) \<Longrightarrow>
        ret = EINVAL \<and> host = None
        \<and> store_calls (new_calls s s') =
            [(Search_custom (Filter_eq SYSDB_NAME name) req, EOK)]"
      by (rule get_ssh_host_ambiguous_any [OF _ _ many_of])
    from store get ambiguous_quiet [OF _ many, of "alias" now attrs req]
    show "(\<forall>ret attrs' s'.
          sysdb_store_ssh_host s name (Some alias) now attrs = Some (ret, attrs', s')
        \<and> (Search_custom (Filter_eq SYSDB_NAME name) (Some [SYSDB_NAME_ALIAS]), EOK)
             \<in> set (store_calls (new_calls s s'))
        \<longrightarrow> ret = EINVAL
          \<and> store_calls (new_calls s s') =
              [(Transaction_start, EOK),
               (Search_custom (Filter_eq SYSDB_NAME name) (Some [SYSDB_NAME_ALIAS]), EOK),
               last (new_calls s s')]
          \<and> fst (last (new_calls s s')) = Transaction_cancel
          \<and> (snd (last (new_calls s s')) = EOK \<longrightarrow>
                open_txns s' = open_txns s \<and> entries s' = entries s))
    \<and> (\<forall>ret host s'.
          sysdb_get_ssh_host s name req = Some (ret, host, s')
        \<and> (Search_custom (Filter_eq SYSDB_NAME name) req, EOK)
             \<in> set (store_calls (new_calls s s'))
        \<longrightarrow> ret = EINVAL \<and> host = None
          \<and> store_calls (new_calls s s') =
              [(Search_custom (Filter_eq SYSDB_NAME name) req, EOK)])
    \<and> (faults s = (\<lambda>h e. EOK) \<longrightarrow>
          (\<exists>attrs' s'.
             sysdb_store_ssh_host s name (Some alias) now attrs = Some (EINVAL, attrs', s')
           \<and> store_calls (new_calls s s') =
               [(Transaction_start, EOK),
                (Search_custom (Filter_eq SYSDB_NAME name) (Some [SYSDB_NAME_ALIAS]), EOK),
                (Transaction_cancel, EOK)]
           \<and> open_txns s' = open_txns s \<and> entries s' = entries s)
        \<and> (\<exists>s'. sysdb_get_ssh_host s name req = Some (EINVAL, None, s')
           \<and> store_calls (new_calls s s') =
               [(Search_custom (Filter_eq SYSDB_NAME name) req, EOK)]
           \<and> open_txns s' = open_txns s \<and> entries s' = entries s))"
      by blast
  qed
  from ambiguous
    get_ssh_host_passes_search_code_on [of s name req]
    store_ssh_host_passes_search_code_on [of s name "alias" now attrs]
  show ?thesis
    by blast
qed

theorem store_ssh_host_ambiguous_witness:
  "faults twice_host1_store = (\<lambda>h e. EOK)
   \<and> length (search_entries (entries twice_host1_store) (Filter_eq SYSDB_NAME ''host1'')
               None) = 2
   \<and> (\<exists>attrs' s'.
         sysdb_store_ssh_host twice_host1_store ''host1'' (Some ''h1.example.net'') 1000 []
           = Some (EINVAL, attrs', s')
       \<and> open_txns s' = [] \<and> entries s' = entries twice_host1_store)
   \<and> (\<exists>s'. sysdb_get_ssh_host twice_host1_store ''host1'' None = Some (EINVAL, None, s'))
   \<and> fst (the (sysdb_store_ssh_host twice_host1_cancel_fails ''host1''
                 (Some ''h1.example.net'') 1000 [])) = EINVAL
   \<and> fst (last (new_calls twice_host1_cancel_fails
        (snd (snd (the (sysdb_store_ssh_host twice_host1_cancel_fails ''host1''
                         (Some ''h1.example.net'') 1000 []))))))
       = Transaction_cancel"
proof -
  let ?c = "sysdb_store_ssh_host twice_host1_cancel_fails ''host1'' (Some ''h1.example.net'')
              1000 []"
  have quiet: "faults twice_host1_store = (\<lambda>h e. EOK)"
    and two: "length (search_entries (entries twice_host1_store)
                        (Filter_eq SYSDB_NAME ''host1'') None) = 2"
    and txns: "open_txns twice_host1_store = []"
    by (simp_all add: twice_host1_store_def example_defs)
  from two have many:
    "length (search_entries (entries twice_host1_store) (Filter_eq SYSDB_NAME ''host1'')
               None) > 1"
    by simp
  from store_ssh_host_ambiguous
    [of twice_host1_store "''host1''" "''h1.example.net''" 1000 "[]" None] many quiet txns
  have first: "(\<exists>attrs' s'.
         sysdb_store_ssh_host twice_host1_store ''host1'' (Some ''h1.example.net'') 1000 []
           = Some (EINVAL, attrs', s')
       \<and> open_txns s' = [] \<and> entries s' = entries twice_host1_store)
     \<and> (\<exists>s'. sysdb_get_ssh_host twice_host1_store ''host1'' None = Some (EINVAL, None, s'))"
    by auto
  have cmany:
    "length (search_entries (entries twice_host1_cancel_fails) (Filter_eq SYSDB_NAME ''host1'')
               None) > 1"
    and returns: "?c \<noteq> None"
    and searched:
      "(Search_custom (Filter_eq SYSDB_NAME ''host1'') (Some [SYSDB_NAME_ALIAS]), EOK)
         \<in> set (store_calls (new_calls twice_host1_cancel_fails (snd (snd (the ?c)))))"
    by (simp_all add: run_defs twice_host1_cancel_fails_def cancel_fails_def
        twice_host1_store_def)
  from returns have "?c = Some (fst (the ?c), fst (snd (the ?c)), snd (snd (the ?c)))"
    by simp
  with store_ssh_host_ambiguous
    [of twice_host1_cancel_fails "''host1''" "''h1.example.net''" 1000 "[]" None] cmany searched
  have second: "fst (the ?c) = EINVAL
      \<and> fst (last (new_calls twice_host1_cancel_fails (snd (snd (the ?c))))) = Transaction_cancel"
    by blast
  from quiet two first second show ?thesis
    by blast
qed

subsection \<open>A commit that fails\<close>

text \<open>
  C8. For every run of \<^verbatim>\<open>sysdb_store_ssh_host\<close> with an alias in which the commit of
  the transaction returns an error \<open>e\<close>: the call returns \<open>e\<close>, and the cancel of the
  transaction is called after the failed commit, as the next call to the store and the
  last call of the run.
\<close>

theorem store_ssh_host_commit_failure_cancels:
  assumes "sysdb_store_ssh_host s name (Some alias) now attrs = Some (ret, attrs', s')"
    and "(Transaction_commit, e) \<in> set (store_calls (new_calls s s'))"
    and "e \<noteq> EOK"
  shows "ret = e
       \<and> fst (last (new_calls s s')) = Transaction_cancel
       \<and> last (butlast (store_calls (new_calls s s'))) = (Transaction_commit, e)
       \<and> fst (last (store_calls (new_calls s s'))) = Transaction_cancel"
  using assms
  by (auto simp: sysdb_store_ssh_host_def new_calls_def
      split: prod.splits if_split_asm option.splits
      dest!: store_ssh_host_effects)

theorem store_ssh_host_commit_failure_cancels_witness:
  "(Transaction_commit, EIO)
     \<in> set (store_calls (new_calls host1_commit_fails
          (snd (snd (the (sysdb_store_ssh_host host1_commit_fails ''host1''
                           (Some ''h1-alt.example.com'') 1010 []))))))
   \<and> fst (the (sysdb_store_ssh_host host1_commit_fails ''host1''
                 (Some ''h1-alt.example.com'') 1010 [])) = EIO
   \<and> fst (last (new_calls host1_commit_fails
        (snd (snd (the (sysdb_store_ssh_host host1_commit_fails ''host1''
                         (Some ''h1-alt.example.com'') 1010 []))))))
       = Transaction_cancel"
proof -
  let ?r = "sysdb_store_ssh_host host1_commit_fails ''host1'' (Some ''h1-alt.example.com'')
              1010 []"
  have returns: "?r \<noteq> None"
    and failed: "(Transaction_commit, EIO)
        \<in> set (store_calls (new_calls host1_commit_fails (snd (snd (the ?r)))))"
    by (simp_all add: run_defs)
  from returns have "?r = Some (fst (the ?r), fst (snd (the ?r)), snd (snd (the ?r)))"
    by simp
  from store_ssh_host_commit_failure_cancels [OF this failed] failed show ?thesis
    by simp
qed

text \<open>
  C7 as stated fails in its second half: the code returned after a failed commit is not
  told apart from the code returned after a failed write. For the same entries and the
  same arguments, an oracle that fails the commit with \<open>EIO\<close> after a successful write
  and an oracle that fails the write with \<open>EIO\<close> make \<^verbatim>\<open>sysdb_store_ssh_host\<close>
  return the same value, and leave the same entries.
\<close>

theorem store_ssh_host_passes_codes_on_counterexample:
  "store_calls (new_calls host1_commit_fails
     (snd (snd (the (sysdb_store_ssh_host host1_commit_fails ''host1''
                      (Some ''h1-alt.example.com'') 1010 [])))))
     = [(Transaction_start, EOK),
        (Search_custom (Filter_eq SYSDB_NAME ''host1'') (Some [SYSDB_NAME_ALIAS]), EOK),
        (Store_custom ''host1''
           [(SYSDB_OBJECTCLASS, [Str SYSDB_SSH_HOST_OC]), (SYSDB_NAME, [Str ''host1'']),
            (SYSDB_NAME_ALIAS, [Str ''h1.example.com'', Str ''h1-alt.example.com'']),
            (SYSDB_LAST_UPDATE, [Time 1010])], EOK),
        (Transaction_commit, EIO),
        (Transaction_cancel, EOK)]
   \<and> store_calls (new_calls host1_write_fails
     (snd (snd (the (sysdb_store_ssh_host host1_write_fails ''host1''
                      (Some ''h1-alt.example.com'') 1010 [])))))
     = [(Transaction_start, EOK),
        (Search_custom (Filter_eq SYSDB_NAME ''host1'') (Some [SYSDB_NAME_ALIAS]), EOK),
        (Store_custom ''host1''
           [(SYSDB_OBJECTCLASS, [Str SYSDB_SSH_HOST_OC]), (SYSDB_NAME, [Str ''host1'']),
            (SYSDB_NAME_ALIAS, [Str ''h1.example.com'', Str ''h1-alt.example.com'']),
            (SYSDB_LAST_UPDATE, [Time 1010])], EIO),
        (Transaction_cancel, EOK)]
   \<and> fst (the (sysdb_store_ssh_host host1_commit_fails ''host1''
                 (Some ''h1-alt.example.com'') 1010 [])) = EIO
   \<and> fst (the (sysdb_store_ssh_host host1_write_fails ''host1''
                 (Some ''h1-alt.example.com'') 1010 [])) = EIO
   \<and> entries (snd (snd (the (sysdb_store_ssh_host host1_commit_fails ''host1''
                               (Some ''h1-alt.example.com'') 1010 []))))
       = entries (snd (snd (the (sysdb_store_ssh_host host1_write_fails ''host1''
                                  (Some ''h1-alt.example.com'') 1010 []))))"
  by (simp add: run_defs)

text \<open>
  C7, amended. For every run of \<^verbatim>\<open>sysdb_store_ssh_host\<close> with an alias in which the
  write succeeds and the commit returns an error \<open>e\<close>, the call returns an error: the
  code \<open>e\<close> of the commit, unchanged. It is no separate kind of error: a write that
  fails with a code \<open>e\<close> also makes the call return \<open>e\<close>.
\<close>

theorem store_ssh_host_passes_codes_on:
  assumes "sysdb_store_ssh_host s name (Some alias) now attrs = Some (ret, attrs', s')"
  shows "(\<forall>e. (Transaction_commit, e) \<in> set (store_calls (new_calls s s')) \<and> e \<noteq> EOK \<longrightarrow>
            ret = e \<and> ret \<noteq> EOK
            \<and> (Store_custom name attrs', EOK) \<in> set (store_calls (new_calls s s')))
       \<and> (\<forall>e nm bag. (Store_custom nm bag, e) \<in> set (store_calls (new_calls s s'))
              \<and> e \<noteq> EOK \<longrightarrow> ret = e)"
  using assms
  by (auto simp: sysdb_store_ssh_host_def new_calls_def
      split: prod.splits if_split_asm option.splits
      dest!: store_ssh_host_effects)

theorem store_ssh_host_passes_codes_on_witness:
  "(Transaction_commit, EIO)
     \<in> set (store_calls (new_calls host1_commit_fails
          (snd (snd (the (sysdb_store_ssh_host host1_commit_fails ''host1''
                           (Some ''h1.example.org'') 1020 []))))))
   \<and> fst (the (sysdb_store_ssh_host host1_commit_fails ''host1''
                 (Some ''h1.example.org'') 1020 [])) = EIO
   \<and> (Store_custom ''host1''
         (fst (snd (the (sysdb_store_ssh_host host1_commit_fails ''host1''
                          (Some ''h1.example.org'') 1020 [])))), EOK)
       \<in> set (store_calls (new_calls host1_commit_fails
            (snd (snd (the (sysdb_store_ssh_host host1_commit_fails ''host1''
                             (Some ''h1.example.org'') 1020 []))))))"
proof -
  let ?r = "sysdb_store_ssh_host host1_commit_fails ''host1'' (Some ''h1.example.org'')
              1020 []"
  have returns: "?r \<noteq> None"
    and failed: "(Transaction_commit, EIO)
        \<in> set (store_calls (new_calls host1_commit_fails (snd (snd (the ?r)))))"
    by (simp_all add: run_defs)
  from returns have "?r = Some (fst (the ?r), fst (snd (the ?r)), snd (snd (the ?r)))"
    by simp
  from store_ssh_host_passes_codes_on [OF this]
  have "(Transaction_commit, EIO)
          \<in> set (store_calls (new_calls host1_commit_fails (snd (snd (the ?r)))))
        \<and> EIO \<noteq> EOK \<longrightarrow>
        fst (the ?r) = EIO
        \<and> (Store_custom ''host1'' (fst (snd (the ?r))), EOK)
            \<in> set (store_calls (new_calls host1_commit_fails (snd (snd (the ?r)))))"
    by blast
  with failed show ?thesis
    by simp
qed

subsection \<open>The caller's bag\<close>






end
